theory Spec2Isabelle
  imports Main "HOL-Library.Word"
begin

unbundle bit_operations_syntax

section \<open>The TI DS250DFx10 retimer driver (drivers/phy/ti/phy-ti-ds250dfx10.c)\<close>

subsection \<open>Machine types and kernel constants\<close>

type_synonym u8 = "8 word"

text \<open>C \<^verbatim>\<open>int\<close> and the kernel's \<^verbatim>\<open>s32\<close>: 32 bits, read as two's complement
  (\<open><s\<close> is the signed order).\<close>

type_synonym s32 = "32 word"

text \<open>Modelled from the spec: the errno macros of the kernel headers are not among the
  sources. The spec names the errors (TransportError, AllocationFailure, NotFound,
  UnsupportedTopology, UnsupportedOperation); the driver returns them negated, as
  \<^verbatim>\<open>-EIO\<close>, \<^verbatim>\<open>-ENOMEM\<close>, \<^verbatim>\<open>-ENODEV\<close>, \<^verbatim>\<open>-EINVAL\<close> and \<^verbatim>\<open>-EOPNOTSUPP\<close>. The numbers
  are those of Linux.\<close>

definition EIO :: s32 where "EIO = 5"
definition ENOMEM :: s32 where "ENOMEM = 12"
definition ENODEV :: s32 where "ENODEV = 19"
definition EINVAL :: s32 where "EINVAL = 22"
definition EOPNOTSUPP :: s32 where "EOPNOTSUPP = 95"

text \<open>Modelled from the spec: the kernel's macro \<^verbatim>\<open>GENMASK(h, l)\<close> is not among the
  sources. The spec gives the two masks built with it as the low four bits and the high
  four bits of a byte: \<^verbatim>\<open>GENMASK(h, l)\<close> is the byte with the bits \<open>l..h\<close> set.\<close>

definition GENMASK :: "nat \<Rightarrow> nat \<Rightarrow> u8" where
  "GENMASK h l = push_bit l (mask (Suc h - l))"

text \<open>The register addresses and masks defined at the top of the file.\<close>

definition DS250DF410_REG_CHAN_CONFIG_ID :: u8 where "DS250DF410_REG_CHAN_CONFIG_ID = 0xEF"
definition DS250DF410_MASK_CHAN_CONFIG_ID :: u8 where "DS250DF410_MASK_CHAN_CONFIG_ID = GENMASK 3 0"
definition DS250DF410_REG_VERSION :: u8 where "DS250DF410_REG_VERSION = 0xF0"
definition DS250DF410_REG_DEVICE_ID :: u8 where "DS250DF410_REG_DEVICE_ID = 0xF1"
definition DS250DF410_REG_CHAN_VERSION :: u8 where "DS250DF410_REG_CHAN_VERSION = 0xF3"
definition DS250DF410_MASK_CHAN_VERSION :: u8 where "DS250DF410_MASK_CHAN_VERSION = GENMASK 7 4"
definition DS250DF410_MASK_SHARE_VERSION :: u8 where "DS250DF410_MASK_SHARE_VERSION = GENMASK 3 0"

subsection \<open>The environment: SMBus adapter, device log, managed resources\<close>

text \<open>Modelled from the spec: the bus transport, the kernel's
  \<^verbatim>\<open>i2c_smbus_read_byte_data\<close> and \<^verbatim>\<open>i2c_smbus_write_byte_data\<close>, is not among the sources.
  The spec (section 2) gives it as \<open>read(address) -> byte\<close> and \<open>write(address, byte)\<close>,
  each a fresh blocking transaction that may fail with a TransportError.

  One transfer as it appears on the bus: the register address, the byte written (for a
  write) and what the adapter returned to the driver: a negative errno when the transfer
  failed, otherwise the byte read (for a read) or 0 (for a write).\<close>

datatype smbus_xfer = Read_byte u8 s32 | Write_byte u8 u8 s32

text \<open>Modelled from the spec: the kernel's \<^verbatim>\<open>enum phy_mode\<close> and \<^verbatim>\<open>phy_interface_t\<close> are
  declared in headers that are not among the sources. The spec has one accepted
  operating mode (Ethernet) and two accepted submodes (10GBASE-R, 25GBASE-R); every other
  enumerator is an \<open>OTHER\<close> value, told apart by its number.\<close>

datatype phy_mode = PHY_MODE_ETHERNET | PHY_MODE_OTHER nat

datatype phy_interface =
    PHY_INTERFACE_MODE_10GBASER
  | PHY_INTERFACE_MODE_25GBASER
  | PHY_INTERFACE_MODE_OTHER nat

text \<open>Modelled from the spec: the kernel's \<^verbatim>\<open>dev_err\<close>, \<^verbatim>\<open>dev_warn\<close> and \<^verbatim>\<open>dev_info\<close> are
  not among the sources; the spec has the driver log each failure, each identification
  value and each success. The log is the list of the lines printed, one constructor for
  each format string of the driver, with the values it prints.\<close>

datatype kmsg =
    Err_read_failed u8 s32
  | Err_write_failed u8 u8 s32
  | Info_configured_10g u8
  | Info_configured_25g u8
  | Err_unsupported_submode phy_interface
  | Info_device_id u8 u8
  | Warn_unknown_device_id
  | Err_unknown_chan_config u8
  | Info_channels u8
  | Info_chan_version u8 u8
  | Info_created_phy nat

text \<open>Modelled from the spec: the kernel's managed-resource and PHY framework
  (\<^verbatim>\<open>devm_kzalloc\<close>, \<^verbatim>\<open>devm_phy_create\<close>, \<^verbatim>\<open>devm_phy_destroy\<close>,
  \<^verbatim>\<open>devm_of_phy_provider_register\<close>) is not among the sources; the spec names it as an
  external collaborator whose failure (AllocationFailure) is fatal to setup. A call is
  recorded with its outcome: for \<^verbatim>\<open>devm_kzalloc\<close> whether memory was given, for
  \<^verbatim>\<open>devm_phy_create\<close> and \<^verbatim>\<open>devm_of_phy_provider_register\<close> \<open>None\<close> for a valid object
  and \<open>Some e\<close> for \<^verbatim>\<open>ERR_PTR(e)\<close>, for \<^verbatim>\<open>devm_phy_destroy\<close> the slot of the PHY.\<close>

datatype devm_call =
    Kzalloc bool
  | Phy_create "s32 option"
  | Phy_destroy nat
  | Provider_register "s32 option"

text \<open>The I2C client is the driver's whole world. What the adapter answers and whether an
  allocation succeeds is outside the driver: each is an arbitrary function of everything
  that happened before, so that any deterministic device, healthy or faulty, is an
  instance. The three traces record what the driver did.\<close>

record i2c_client =
  adapter_read :: "smbus_xfer list \<Rightarrow> u8 \<Rightarrow> s32"
  adapter_write :: "smbus_xfer list \<Rightarrow> u8 \<Rightarrow> u8 \<Rightarrow> s32"
  xfers :: "smbus_xfer list"
  dmesg :: "kmsg list"
  kzalloc_ok :: "devm_call list \<Rightarrow> bool"
  phy_create_err :: "devm_call list \<Rightarrow> s32 option"
  provider_register_err :: "devm_call list \<Rightarrow> s32 option"
  devm_calls :: "devm_call list"

text \<open>Modelled from the spec: the two transport functions ask the adapter and record the
  transfer; \<^verbatim>\<open>dev_printk\<close> (behind \<^verbatim>\<open>dev_err\<close>, \<^verbatim>\<open>dev_warn\<close>, \<^verbatim>\<open>dev_info\<close>) appends a line
  to the log.\<close>

definition i2c_smbus_read_byte_data :: "i2c_client \<Rightarrow> u8 \<Rightarrow> s32 \<times> i2c_client" where
  "i2c_smbus_read_byte_data client address =
     (let res = adapter_read client (xfers client) address
      in (res, client\<lparr>xfers := xfers client @ [Read_byte address res]\<rparr>))"

definition i2c_smbus_write_byte_data :: "i2c_client \<Rightarrow> u8 \<Rightarrow> u8 \<Rightarrow> s32 \<times> i2c_client" where
  "i2c_smbus_write_byte_data client address val =
     (let res = adapter_write client (xfers client) address val
      in (res, client\<lparr>xfers := xfers client @ [Write_byte address val res]\<rparr>))"

definition dev_printk :: "i2c_client \<Rightarrow> kmsg \<Rightarrow> i2c_client" where
  "dev_printk client msg = client\<lparr>dmesg := dmesg client @ [msg]\<rparr>"

subsection \<open>Register access\<close>

text \<open>\<^verbatim>\<open>ds250dfx10_read_register\<close>: one byte read; \<^verbatim>\<open>-EIO\<close> (\<open>Inl\<close>) when the adapter
  fails, otherwise \<^verbatim>\<open>*value = res & mask\<close> (\<open>Inr\<close>).\<close>

definition ds250dfx10_read_register :: "i2c_client \<Rightarrow> u8 \<Rightarrow> u8 \<Rightarrow> (s32 + u8) \<times> i2c_client" where
  "ds250dfx10_read_register client address msk =
     (let (res, client) = i2c_smbus_read_byte_data client address
      in if res <s 0
         then (Inl (- EIO), dev_printk client (Err_read_failed address res))
         else (Inr (ucast (res AND ucast msk)), client))"

text \<open>\<^verbatim>\<open>ds250dfx10_write_register\<close>: with a mask other than \<^verbatim>\<open>0xFF\<close> the register is read
  first through the complement mask and the kept bits are or-ed into the value; a failed
  read returns at once. Then the byte is written: \<open>write_new_value\<close> is the rest of
  the function from its comment \<^verbatim>\<open>// write new value\<close> on.\<close>

definition write_new_value :: "i2c_client \<Rightarrow> u8 \<Rightarrow> u8 \<Rightarrow> s32 \<times> i2c_client" where
  "write_new_value client address val =
     (let (res, client) = i2c_smbus_write_byte_data client address val
      in if res <s 0
         then (- EIO, dev_printk client (Err_write_failed address val res))
         else (0, client))"

definition ds250dfx10_write_register :: "i2c_client \<Rightarrow> u8 \<Rightarrow> u8 \<Rightarrow> u8 \<Rightarrow> s32 \<times> i2c_client" where
  "ds250dfx10_write_register client address val msk =
     (if msk \<noteq> 0xFF
      then (case ds250dfx10_read_register client address (NOT msk) of
              (Inl ret, client) \<Rightarrow> (ret, client)
            | (Inr tmp, client) \<Rightarrow> write_new_value client address ((val AND msk) OR tmp))
      else write_new_value client address val)"

subsection \<open>Channel configuration\<close>

text \<open>\<^verbatim>\<open>1 << channel\<close> is computed in \<^verbatim>\<open>int\<close> and passed as a \<^verbatim>\<open>uint8_t\<close>, which keeps
  the low byte. (C leaves the shift undefined from 31 on; the driver only ever passes the
  index of a PHY it created, which is below 8.)\<close>

definition chan_select :: "u8 \<Rightarrow> u8" where
  "chan_select chan = ucast (push_bit (unat chan) (1 :: s32))"

definition ds250dfx10_config_10g :: "i2c_client \<Rightarrow> u8 \<Rightarrow> i2c_client" where
  "ds250dfx10_config_10g client chan =
     (let ret = 0;
          \<comment> \<open>enable smbus access to single channel\<close>
          (r, client) = ds250dfx10_write_register client 0xFF 0x01 0x03; ret = ret OR r;
          \<comment> \<open>select channel\<close>
          (r, client) = ds250dfx10_write_register client 0xFC (chan_select chan) 0xFF; ret = ret OR r;
          \<comment> \<open>reset channel registers\<close>
          (r, client) = ds250dfx10_write_register client 0x00 0x04 0x04; ret = ret OR r;
          \<comment> \<open>assert cdr\<close>
          (r, client) = ds250dfx10_write_register client 0x0A 0x0C 0x0C; ret = ret OR r;
          \<comment> \<open>select 10.3125 rate\<close>
          (r, client) = ds250dfx10_write_register client 0x2F 0x00 0xF0; ret = ret OR r;
          \<comment> \<open>enable pre- and post-fir\<close>
          (r, client) = ds250dfx10_write_register client 0x3D 0x80 0x80; ret = ret OR r;
          \<comment> \<open>set main cursor magnitude +15\<close>
          (r, client) = ds250dfx10_write_register client 0x3D 0x00 0x40; ret = ret OR r;
          (r, client) = ds250dfx10_write_register client 0x3D 0x0F 0x1F; ret = ret OR r;
          \<comment> \<open>set pre cursor magnitude -4\<close>
          (r, client) = ds250dfx10_write_register client 0x3E 0x40 0x40; ret = ret OR r;
          (r, client) = ds250dfx10_write_register client 0x3E 0x04 0x0F; ret = ret OR r;
          \<comment> \<open>set post cursor magnitude -4\<close>
          (r, client) = ds250dfx10_write_register client 0x3F 0x40 0x40; ret = ret OR r;
          (r, client) = ds250dfx10_write_register client 0x3F 0x04 0x0F; ret = ret OR r;
          \<comment> \<open>deassert cdr\<close>
          (r, client) = ds250dfx10_write_register client 0x0A 0x00 0x0C; ret = ret OR r
      in if ret = 0 then dev_printk client (Info_configured_10g chan) else client)"

definition ds250dfx10_config_25g :: "i2c_client \<Rightarrow> u8 \<Rightarrow> i2c_client" where
  "ds250dfx10_config_25g client chan =
     (let ret = 0;
          \<comment> \<open>enable smbus access to single channel\<close>
          (r, client) = ds250dfx10_write_register client 0xFF 0x01 0x03; ret = ret OR r;
          \<comment> \<open>select channel\<close>
          (r, client) = ds250dfx10_write_register client 0xFC (chan_select chan) 0xFF; ret = ret OR r;
          \<comment> \<open>reset channel registers\<close>
          (r, client) = ds250dfx10_write_register client 0x00 0x04 0x04; ret = ret OR r;
          \<comment> \<open>assert cdr\<close>
          (r, client) = ds250dfx10_write_register client 0x0A 0x0C 0x0C; ret = ret OR r;
          \<comment> \<open>select 25.78125 rate\<close>
          (r, client) = ds250dfx10_write_register client 0x2F 0x50 0xF0; ret = ret OR r;
          \<comment> \<open>enable pre- and post-fir\<close>
          (r, client) = ds250dfx10_write_register client 0x3D 0x80 0x80; ret = ret OR r;
          \<comment> \<open>set main cursor magnitude +15\<close>
          (r, client) = ds250dfx10_write_register client 0x3D 0x00 0x40; ret = ret OR r;
          (r, client) = ds250dfx10_write_register client 0x3D 0x0F 0x1F; ret = ret OR r;
          \<comment> \<open>set pre cursor magnitude -4\<close>
          (r, client) = ds250dfx10_write_register client 0x3E 0x40 0x40; ret = ret OR r;
          (r, client) = ds250dfx10_write_register client 0x3E 0x04 0x0F; ret = ret OR r;
          \<comment> \<open>set post cursor magnitude -4\<close>
          (r, client) = ds250dfx10_write_register client 0x3F 0x40 0x40; ret = ret OR r;
          (r, client) = ds250dfx10_write_register client 0x3F 0x04 0x0F; ret = ret OR r;
          \<comment> \<open>deassert cdr\<close>
          (r, client) = ds250dfx10_write_register client 0x0A 0x00 0x0C; ret = ret OR r
      in if ret = 0 then dev_printk client (Info_configured_25g chan) else client)"

subsection \<open>The PHY operation\<close>

text \<open>\<^verbatim>\<open>struct ds250dfx10_phy_priv\<close>, the driver data of one PHY. Its \<^verbatim>\<open>client\<close> pointer
  is the one I2C client, which the functions below take and return.\<close>

record ds250dfx10_phy_priv =
  channel :: u8

text \<open>\<^verbatim>\<open>ds250dfx10_phy_set_mode\<close>. The argument \<open>priv\<close> is \<^verbatim>\<open>phy_get_drvdata(phy)\<close>: the
  framework only passes PHYs that the probe created and gave their data.\<close>

definition ds250dfx10_phy_set_mode ::
  "i2c_client \<Rightarrow> ds250dfx10_phy_priv \<Rightarrow> phy_mode \<Rightarrow> phy_interface \<Rightarrow> s32 \<times> i2c_client" where
  "ds250dfx10_phy_set_mode client priv mode submode =
     (if mode \<noteq> PHY_MODE_ETHERNET then (- EOPNOTSUPP, client)
      else (case submode of
              PHY_INTERFACE_MODE_10GBASER \<Rightarrow> (0, ds250dfx10_config_10g client (channel priv))
            | PHY_INTERFACE_MODE_25GBASER \<Rightarrow> (0, ds250dfx10_config_25g client (channel priv))
            | PHY_INTERFACE_MODE_OTHER n \<Rightarrow>
                (- EOPNOTSUPP, dev_printk client (Err_unsupported_submode submode))))"

subsection \<open>Probe\<close>

text \<open>Modelled from the spec: the kernel's \<^verbatim>\<open>ERR_PTR\<close>, \<^verbatim>\<open>IS_ERR\<close> and \<^verbatim>\<open>PTR_ERR\<close> are not
  among the sources; in the spec an operation yields a handle or an error such as
  NotFound. A pointer is \<^verbatim>\<open>NULL\<close>, an errno in place of an object, or an object.\<close>

datatype 'a ptr = NULL | ERR_PTR s32 | Ptr 'a

text \<open>Modelled from the spec: \<^verbatim>\<open>struct phy\<close>, \<^verbatim>\<open>phy_set_drvdata\<close> and \<^verbatim>\<open>phy_get_drvdata\<close>
  belong to the kernel's PHY framework and are not among the sources; the spec's lane
  handle is bound to one device and one channel index. The PHY object as far as the driver
  uses it: its driver data, absent until the probe sets it.\<close>

record phy =
  drvdata :: "ds250dfx10_phy_priv option"

text \<open>\<^verbatim>\<open>struct ds250dfx10_priv\<close>: the eight PHY slots and the provider.\<close>

record ds250dfx10_priv =
  phy :: "phy ptr list"
  provider :: "unit ptr"

text \<open>Modelled from the spec: the four managed-resource calls, not among the sources, each
  asking the environment for its outcome and recording the call. \<^verbatim>\<open>devm_kzalloc\<close> gives
  zeroed memory or fails.\<close>

definition devm_kzalloc :: "i2c_client \<Rightarrow> bool \<times> i2c_client" where
  "devm_kzalloc client =
     (let ok = kzalloc_ok client (devm_calls client)
      in (ok, client\<lparr>devm_calls := devm_calls client @ [Kzalloc ok]\<rparr>))"

text \<open>Modelled from the spec: \<^verbatim>\<open>devm_phy_create\<close>, not among the sources, gives a new PHY
  without driver data (\<open>Inr\<close>) or \<^verbatim>\<open>ERR_PTR(e)\<close> (\<open>Inl e\<close>, for which \<^verbatim>\<open>IS_ERR\<close> holds and
  \<^verbatim>\<open>PTR_ERR\<close> is \<open>e\<close>).\<close>

definition devm_phy_create :: "i2c_client \<Rightarrow> (s32 + phy) \<times> i2c_client" where
  "devm_phy_create client =
     (let err = phy_create_err client (devm_calls client);
          client = client\<lparr>devm_calls := devm_calls client @ [Phy_create err]\<rparr>
      in case err of
           None \<Rightarrow> (Inr \<lparr>drvdata = None\<rparr>, client)
         | Some e \<Rightarrow> (Inl e, client))"

text \<open>Modelled from the spec: \<^verbatim>\<open>devm_phy_destroy\<close> and \<^verbatim>\<open>devm_of_phy_provider_register\<close>,
  not among the sources. The registration gives a provider or \<^verbatim>\<open>ERR_PTR(e)\<close>.\<close>

definition devm_phy_destroy :: "i2c_client \<Rightarrow> nat \<Rightarrow> i2c_client" where
  "devm_phy_destroy client i = client\<lparr>devm_calls := devm_calls client @ [Phy_destroy i]\<rparr>"

definition devm_of_phy_provider_register :: "i2c_client \<Rightarrow> unit ptr \<times> i2c_client" where
  "devm_of_phy_provider_register client =
     (let err = provider_register_err client (devm_calls client);
          client = client\<lparr>devm_calls := devm_calls client @ [Provider_register err]\<rparr>
      in case err of
           None \<Rightarrow> (Ptr (), client)
         | Some e \<Rightarrow> (ERR_PTR e, client))"

text \<open>The loop \<^verbatim>\<open>for (i = 0; i < channels; i++)\<close> that creates the PHY objects. The result
  is \<open>Some ret\<close> when the loop leaves through \<^verbatim>\<open>goto no_provider\<close>. The device-tree node
  \<^verbatim>\<open>child\<close> that the source hands to \<^verbatim>\<open>devm_phy_create\<close> and \<^verbatim>\<open>of_node_put\<close> is never
  assigned and plays no part here.\<close>

function create_phys ::
  "nat \<Rightarrow> nat \<Rightarrow> ds250dfx10_priv \<Rightarrow> i2c_client \<Rightarrow> s32 option \<times> ds250dfx10_priv \<times> i2c_client" where
  "create_phys i channels priv client =
     (if i < channels then
        (case devm_phy_create client of
           (Inl ret, client) \<Rightarrow> (Some ret, priv\<lparr>phy := (phy priv)[i := NULL]\<rparr>, client)
         | (Inr new_phy, client) \<Rightarrow>
             (let priv = priv\<lparr>phy := (phy priv)[i := Ptr new_phy]\<rparr> in
              case devm_kzalloc client of
                (False, client) \<Rightarrow> (Some (- ENOMEM), priv, client)
              | (True, client) \<Rightarrow>
                  (let phy_priv = \<lparr>channel = of_nat i\<rparr>;
                       priv = priv\<lparr>phy := (phy priv)[i := Ptr (new_phy\<lparr>drvdata := Some phy_priv\<rparr>)]\<rparr>;
                       client = dev_printk client (Info_created_phy i)
                   in create_phys (Suc i) channels priv client)))
      else (None, priv, client))"
  by pat_completeness auto
termination
  by (relation "measure (\<lambda>(i, channels, priv, client). channels - i)") auto

text \<open>The label \<^verbatim>\<open>no_provider\<close>: every slot that is not \<^verbatim>\<open>NULL\<close> is destroyed.\<close>

definition no_provider :: "ds250dfx10_priv \<Rightarrow> i2c_client \<Rightarrow> i2c_client" where
  "no_provider priv client =
     foldl (\<lambda>client i. if phy priv ! i \<noteq> NULL then devm_phy_destroy client i else client)
       client [0..<8]"

text \<open>The end of the probe, from the comment \<^verbatim>\<open>// create PHY objects for all channels\<close>
  on: the loop, then either the cleanup at \<^verbatim>\<open>no_provider\<close> or the registration of the
  provider, whose result is stored unchecked.\<close>

definition create_and_register ::
  "u8 \<Rightarrow> ds250dfx10_priv \<Rightarrow> i2c_client \<Rightarrow> s32 \<times> ds250dfx10_priv option \<times> i2c_client" where
  "create_and_register channels priv client =
     (case create_phys 0 (unat channels) priv client of
        (Some ret, priv, client) \<Rightarrow> (ret, Some priv, no_provider priv client)
      | (None, priv, client) \<Rightarrow>
          \<comment> \<open>register self as phy provider with generic lookup function\<close>
          (let (p, client) = devm_of_phy_provider_register client
           in (0, Some (priv\<lparr>provider := p\<rparr>), client)))"

text \<open>\<^verbatim>\<open>ds250dfx10_probe\<close>. Besides the return value the model gives the private data the
  probe allocated and attached with \<^verbatim>\<open>i2c_set_clientdata\<close> (\<open>None\<close> when the allocation
  failed), as it stands when the probe returns.\<close>

definition ds250dfx10_probe :: "i2c_client \<Rightarrow> s32 \<times> ds250dfx10_priv option \<times> i2c_client" where
  "ds250dfx10_probe client =
     (case devm_kzalloc client of
        (False, client) \<Rightarrow> (- ENOMEM, None, client)
      | (True, client) \<Rightarrow>
     (let priv = \<lparr>phy = replicate 8 NULL, provider = NULL\<rparr> in
      \<comment> \<open>read device identification\<close>
      case ds250dfx10_read_register client DS250DF410_REG_DEVICE_ID 0xFF of
        (Inl ret, client) \<Rightarrow> (ret, Some priv, client)
      | (Inr device_id, client) \<Rightarrow>
      \<comment> \<open>read device version\<close>
     (case ds250dfx10_read_register client DS250DF410_REG_VERSION 0xFF of
        (Inl ret, client) \<Rightarrow> (ret, Some priv, client)
      | (Inr version, client) \<Rightarrow>
     (let client = dev_printk client (Info_device_id device_id version);
          client = (if device_id = 0x10 then client else dev_printk client Warn_unknown_device_id)
      in
      \<comment> \<open>read channel config id\<close>
      case ds250dfx10_read_register client DS250DF410_REG_CHAN_CONFIG_ID
             DS250DF410_MASK_CHAN_CONFIG_ID of
        (Inl ret, client) \<Rightarrow> (ret, Some priv, client)
      | (Inr chan_config_id, client) \<Rightarrow>
     (case (if chan_config_id = 0xC then Some 8
            else if chan_config_id = 0xE then Some 4
            else None) of
        None \<Rightarrow> (- EINVAL, Some priv, dev_printk client (Err_unknown_chan_config chan_config_id))
      | Some channels \<Rightarrow>
     (let client = dev_printk client (Info_channels channels) in
      \<comment> \<open>read channel version\<close>
      case ds250dfx10_read_register client DS250DF410_REG_CHAN_VERSION 0xFF of
        (Inl ret, client) \<Rightarrow> (ret, Some priv, client)
      | (Inr reg, client) \<Rightarrow>
     (let chan_version = drop_bit 4 (reg AND DS250DF410_MASK_CHAN_VERSION);
          share_version = reg AND DS250DF410_MASK_SHARE_VERSION;
          client = dev_printk client (Info_chan_version chan_version share_version)
      in create_and_register channels priv client)))))))"

subsection \<open>Lane lookup\<close>

text \<open>Modelled from the spec: \<^verbatim>\<open>struct of_phandle_args\<close> is declared in a kernel header
  that is not among the sources; the spec's lookup request is a channel index. The
  structure as far as the driver reads it: the cell count and the cells.\<close>

record of_phandle_args =
  args_count :: s32
  args :: "nat \<Rightarrow> 32 word"

text \<open>\<^verbatim>\<open>ds250dfx10_of_xlate\<close>, with \<open>phy_priv\<close> the private data attached to the device.
  The first cell is assigned to an \<^verbatim>\<open>int\<close> and compared with \<^verbatim>\<open>ARRAY_SIZE\<close>, a
  \<^verbatim>\<open>size_t\<close> of value 8: the \<^verbatim>\<open>int\<close> is sign-extended and the comparison is unsigned. The second
  operand of \<^verbatim>\<open>||\<close> is only evaluated when the first is false. The two diagnostics
  (\<^verbatim>\<open>dev_err\<close>, \<^verbatim>\<open>WARN_ON\<close>) are left out.\<close>

definition ds250dfx10_of_xlate :: "ds250dfx10_priv \<Rightarrow> of_phandle_args \<Rightarrow> phy ptr" where
  "ds250dfx10_of_xlate phy_priv a =
     (if args_count a \<noteq> 1 then ERR_PTR (- ENODEV)
      else (let chan = args a 0 in
            if (8 :: 64 word) \<le> scast chan then ERR_PTR (- ENODEV)
            else if phy phy_priv ! unat chan = NULL then ERR_PTR (- ENODEV)
            else phy phy_priv ! unat chan))"

section \<open>Observations\<close>

text \<open>What a run added to the three traces of the client.\<close>

definition new_xfers :: "i2c_client \<Rightarrow> i2c_client \<Rightarrow> smbus_xfer list" where
  "new_xfers c c' = drop (length (xfers c)) (xfers c')"

definition new_dmesg :: "i2c_client \<Rightarrow> i2c_client \<Rightarrow> kmsg list" where
  "new_dmesg c c' = drop (length (dmesg c)) (dmesg c')"

definition new_devm_calls :: "i2c_client \<Rightarrow> i2c_client \<Rightarrow> devm_call list" where
  "new_devm_calls c c' = drop (length (devm_calls c)) (devm_calls c')"

fun xfer_failed :: "smbus_xfer \<Rightarrow> bool" where
  "xfer_failed (Read_byte a r) = (r <s 0)"
| "xfer_failed (Write_byte a v r) = (r <s 0)"

fun xfer_error :: "smbus_xfer \<Rightarrow> kmsg list" where
  "xfer_error (Read_byte a r) = (if r <s 0 then [Err_read_failed a r] else [])"
| "xfer_error (Write_byte a v r) = (if r <s 0 then [Err_write_failed a v r] else [])"

fun devm_failed :: "devm_call \<Rightarrow> bool" where
  "devm_failed (Kzalloc ok) = (\<not> ok)"
| "devm_failed (Phy_create err) = (err \<noteq> None)"
| "devm_failed (Phy_destroy i) = False"
| "devm_failed (Provider_register err) = (err \<noteq> None)"

text \<open>The PHY the probe builds for channel \<open>i\<close>.\<close>

definition lane :: "nat \<Rightarrow> phy ptr" where
  "lane i = Ptr \<lparr>drvdata = Some \<lparr>channel = of_nat i\<rparr>\<rparr>"

text \<open>The client \<open>c\<close> after more transfers, log lines and managed-resource calls.\<close>

definition after :: "i2c_client \<Rightarrow> smbus_xfer list \<Rightarrow> kmsg list \<Rightarrow> devm_call list \<Rightarrow> i2c_client" where
  "after c t l d = c\<lparr>xfers := xfers c @ t, dmesg := dmesg c @ l, devm_calls := devm_calls c @ d\<rparr>"

text \<open>The private data as \<^verbatim>\<open>devm_kzalloc\<close> returns it: zeroed.\<close>

definition priv0 :: ds250dfx10_priv where
  "priv0 = \<lparr>phy = replicate 8 NULL, provider = NULL\<rparr>"

text \<open>A masked write \<open>(address, value, mask)\<close> as the spec describes it on the bus
  (section 4.1): with the mask \<open>0xFF\<close> one write of the value; otherwise one read, and
  after a read that succeeded one write of \<open>(value & mask) | (read & ~mask)\<close>. A failed
  read ends the masked write.\<close>

fun one_masked_write :: "u8 \<times> u8 \<times> u8 \<Rightarrow> smbus_xfer list \<Rightarrow> bool" where
  "one_masked_write (a, v, m) [Write_byte a' v' r] = (m = 0xFF \<and> a' = a \<and> v' = v)"
| "one_masked_write (a, v, m) [Read_byte a' raw] = (m \<noteq> 0xFF \<and> a' = a \<and> raw <s 0)"
| "one_masked_write (a, v, m) [Read_byte a' raw, Write_byte a'' v' r] =
     (m \<noteq> 0xFF \<and> a' = a \<and> a'' = a \<and> \<not> raw <s 0 \<and> v' = (v AND m) OR (ucast raw AND NOT m))"
| "one_masked_write w t = False"

text \<open>The number of transfers the first masked write of a trace takes: two when the
  trace begins with a read that succeeded, otherwise one.\<close>

fun first_xfers :: "smbus_xfer list \<Rightarrow> nat" where
  "first_xfers (Read_byte a raw # t) = (if raw <s 0 then 1 else 2)"
| "first_xfers t = 1"

text \<open>A trace that is a sequence of masked writes, one after the other.\<close>

fun masked_writes_on_bus :: "(u8 \<times> u8 \<times> u8) list \<Rightarrow> smbus_xfer list \<Rightarrow> bool" where
  "masked_writes_on_bus [] t = (t = [])"
| "masked_writes_on_bus (w # ws) t =
     (one_masked_write w (take (first_xfers t) t)
      \<and> masked_writes_on_bus ws (drop (first_xfers t) t))"

text \<open>Issuing masked writes in order through \<^verbatim>\<open>ds250dfx10_write_register\<close>, each as the
  statement \<^verbatim>\<open>ret |= ds250dfx10_write_register(client, address, value, mask)\<close>.\<close>

definition or_write :: "s32 \<times> i2c_client \<Rightarrow> u8 \<times> u8 \<times> u8 \<Rightarrow> s32 \<times> i2c_client" where
  "or_write = (\<lambda>(ret, client) (a, v, m).
     let (r, client) = ds250dfx10_write_register client a v m in (ret OR r, client))"

definition write_registers :: "i2c_client \<Rightarrow> (u8 \<times> u8 \<times> u8) list \<Rightarrow> s32 \<times> i2c_client" where
  "write_registers client ws = foldl or_write (0, client) ws"


section \<open>Concrete devices\<close>

text \<open>The errno of an adapter whose transfer is not acknowledged.\<close>

definition ENXIO :: s32 where "ENXIO = 6"

text \<open>A fresh client on a device whose answers depend on the address only, under a kernel
  that grants every allocation.\<close>

definition static_client :: "(u8 \<Rightarrow> s32) \<Rightarrow> (u8 \<Rightarrow> u8 \<Rightarrow> s32) \<Rightarrow> i2c_client" where
  "static_client rd wr =
     \<lparr>adapter_read = (\<lambda>h. rd), adapter_write = (\<lambda>h. wr), xfers = [], dmesg = [],
      kzalloc_ok = (\<lambda>h. True), phy_create_err = (\<lambda>h. None),
      provider_register_err = (\<lambda>h. None), devm_calls = []\<rparr>"

text \<open>No device answers: every transfer fails.\<close>

definition absent_device :: i2c_client where
  "absent_device = static_client (\<lambda>a. - ENXIO) (\<lambda>a v. - ENXIO)"

text \<open>The device of the spec's end-to-end scenario (device id \<open>0x10\<close>, version \<open>0x02\<close>,
  channel configuration \<open>0xE\<close>), its eight-channel sibling, a healthy device on which only
  the write to the line-rate register fails, and a device with an unknown channel
  configuration.\<close>

definition ds250df410 :: i2c_client where
  "ds250df410 =
     static_client
       (\<lambda>a. if a = 0xF1 then 0x10 else if a = 0xF0 then 0x02 else if a = 0xEF then 0x0E else 0xA5)
       (\<lambda>a v. 0)"

definition ds250df810 :: i2c_client where
  "ds250df810 =
     static_client
       (\<lambda>a. if a = 0xF1 then 0x10 else if a = 0xF0 then 0x02 else if a = 0xEF then 0x3C else 0xA5)
       (\<lambda>a v. 0)"

definition rate_write_nak :: i2c_client where
  "rate_write_nak = static_client (\<lambda>a. 0xA5) (\<lambda>a v. if a = 0x2F then - ENXIO else 0)"

definition unknown_topology :: i2c_client where
  "unknown_topology =
     static_client
       (\<lambda>a. if a = 0xF1 then 0x10 else if a = 0xF0 then 0x02 else if a = 0xEF then 0x03 else 0xA5)
       (\<lambda>a v. 0)"

text \<open>Lookup requests: one cell holding a channel index, and a request with two cells.\<close>

definition one_cell :: "32 word \<Rightarrow> of_phandle_args" where
  "one_cell idx = \<lparr>args_count = 1, args = (\<lambda>i. if i = 0 then idx else 0)\<rparr>"

definition two_cells :: of_phandle_args where
  "two_cells = \<lparr>args_count = 2, args = (\<lambda>i. 0)\<rparr>"

section \<open>Lemmas\<close>

subsection \<open>Running the operations\<close>

text \<open>Every operation takes a client of the form \<open>after c t l d\<close> to a client of that form
  again, with longer traces: the adapter and the allocation outcomes of \<open>c\<close> never change.\<close>

lemma after_sel [simp]:
  "xfers (after c t l d) = xfers c @ t"
  "dmesg (after c t l d) = dmesg c @ l"
  "devm_calls (after c t l d) = devm_calls c @ d"
  "adapter_read (after c t l d) = adapter_read c"
  "adapter_write (after c t l d) = adapter_write c"
  "kzalloc_ok (after c t l d) = kzalloc_ok c"
  "phy_create_err (after c t l d) = phy_create_err c"
  "provider_register_err (after c t l d) = provider_register_err c"
  by (simp_all add: after_def)

lemma after_Nil: "after c [] [] [] = c"
  by (simp add: after_def)

lemma after_after: "after (after c t l d) t' l' d' = after c (t @ t') (l @ l') (d @ d')"
  by (simp add: after_def)

lemma new_after [simp]:
  "new_xfers c (after c t l d) = t"
  "new_dmesg c (after c t l d) = l"
  "new_devm_calls c (after c t l d) = d"
  by (simp_all add: new_xfers_def new_dmesg_def new_devm_calls_def)

lemma ucast_and_mask: "ucast ((r::s32) AND ucast (m::u8)) = (ucast r :: u8) AND m"
  by (rule bit_word_eqI) (auto simp: bit_simps)

lemma read_register_after:
  "ds250dfx10_read_register (after c t l d) a m =
     (let r = adapter_read c (xfers c @ t) a in
      (if r <s 0 then Inl (- EIO) else Inr (ucast r AND m),
       after c (t @ [Read_byte a r]) (l @ xfer_error (Read_byte a r)) d))"
  by (simp add: ds250dfx10_read_register_def i2c_smbus_read_byte_data_def Let_def dev_printk_def
      after_def ucast_and_mask)

lemma write_new_value_after:
  "write_new_value (after c t l d) a v =
     (let r = adapter_write c (xfers c @ t) a v in
      (if r <s 0 then - EIO else 0,
       after c (t @ [Write_byte a v r]) (l @ xfer_error (Write_byte a v r)) d))"
  by (simp add: write_new_value_def i2c_smbus_write_byte_data_def Let_def dev_printk_def after_def)

lemma dev_printk_after: "dev_printk (after c t l d) msg = after c t (l @ [msg]) d"
  by (simp add: dev_printk_def after_def)

lemma devm_kzalloc_after:
  "devm_kzalloc (after c t l d) =
     (kzalloc_ok c (devm_calls c @ d),
      after c t l (d @ [Kzalloc (kzalloc_ok c (devm_calls c @ d))]))"
  by (simp add: devm_kzalloc_def after_def Let_def)

lemma devm_phy_create_after:
  "devm_phy_create (after c t l d) =
     (case phy_create_err c (devm_calls c @ d) of
        None \<Rightarrow> Inr \<lparr>drvdata = None\<rparr> | Some e \<Rightarrow> Inl e,
      after c t l (d @ [Phy_create (phy_create_err c (devm_calls c @ d))]))"
  by (simp add: devm_phy_create_def after_def Let_def split: option.splits)

lemma devm_register_after:
  "devm_of_phy_provider_register (after c t l d) =
     (case provider_register_err c (devm_calls c @ d) of
        None \<Rightarrow> Ptr () | Some e \<Rightarrow> ERR_PTR e,
      after c t l (d @ [Provider_register (provider_register_err c (devm_calls c @ d))]))"
  by (simp add: devm_of_phy_provider_register_def after_def Let_def split: option.splits)

lemma foldl_destroy:
  "foldl (\<lambda>client i. if P i then devm_phy_destroy client i else client) (after c t l d) is =
     after c t l (d @ map Phy_destroy (filter P is))"
  by (induction "is" arbitrary: d) (simp_all add: devm_phy_destroy_def after_def)

lemma no_provider_after:
  "no_provider priv (after c t l d) =
     after c t l (d @ map Phy_destroy (filter (\<lambda>i. phy priv ! i \<noteq> NULL) [0..<8]))"
  unfolding no_provider_def by (rule foldl_destroy)

subsection \<open>The probe\<close>

text \<open>The loop: it only adds managed-resource calls and log lines; it ends without error
  exactly when none of its calls failed; it leaves the slots outside \<open>i..<n\<close> alone, and
  fills every slot of \<open>i..<n\<close> with its lane when it ends without error.\<close>

declare create_phys.simps [simp del]

lemma create_phys_after:
  "\<exists>r priv' l' d'.
     create_phys i n priv (after c t l d) = (r, priv', after c t (l @ l') (d @ d'))
   \<and> (r = None) = (\<not> list_ex devm_failed d')
   \<and> provider priv' = provider priv \<and> length (phy priv') = length (phy priv)
   \<and> (\<forall>j < length (phy priv).
        if i \<le> j \<and> j < n
        then (if r = None then phy priv' ! j = lane j
              else phy priv' ! j = lane j \<or> phy priv' ! j = Ptr \<lparr>drvdata = None\<rparr>
                 \<or> phy priv' ! j = NULL \<or> phy priv' ! j = phy priv ! j)
        else phy priv' ! j = phy priv ! j)"
proof (induction "n - i" arbitrary: i priv l d)
  case 0
  then have ge: "n \<le> i" by simp
  then have "create_phys i n priv (after c t l d) = (None, priv, after c t (l @ []) (d @ []))"
    by (simp add: create_phys.simps [of i])
  then show ?case by (intro exI conjI, assumption) (use ge in auto)
next
  case (Suc k)
  then have lt: "i < n" and k: "k = n - Suc i" by simp_all
  show ?case
  proof (cases "phy_create_err c (devm_calls c @ d)")
    case (Some e)
    have "create_phys i n priv (after c t l d) =
        (Some e, priv\<lparr>phy := (phy priv)[i := NULL]\<rparr>, after c t (l @ []) (d @ [Phy_create (Some e)]))"
      using lt Some by (simp add: create_phys.simps [of i] devm_phy_create_after)
    then show ?thesis
      by (intro exI conjI, assumption) (use lt in \<open>auto simp: nth_list_update\<close>)
  next
    case None
    show ?thesis
    proof (cases "kzalloc_ok c (devm_calls c @ d @ [Phy_create None])")
      case False
      have "create_phys i n priv (after c t l d) =
          (Some (- ENOMEM), priv\<lparr>phy := (phy priv)[i := Ptr \<lparr>drvdata = None\<rparr>]\<rparr>,
           after c t (l @ []) (d @ [Phy_create None, Kzalloc False]))"
        using lt None False
        by (simp add: create_phys.simps [of i] devm_phy_create_after devm_kzalloc_after)
      then show ?thesis
        by (intro exI conjI, assumption) (use lt in \<open>auto simp: nth_list_update\<close>)
    next
      case True
      let ?p = "priv\<lparr>phy := (phy priv)[i := lane i]\<rparr>"
      let ?l = "l @ [Info_created_phy i]"
      let ?d = "d @ [Phy_create None, Kzalloc True]"
      have unf: "create_phys i n priv (after c t l d) = create_phys (Suc i) n ?p (after c t ?l ?d)"
        using lt None True
        by (simp add: create_phys.simps [of i] devm_phy_create_after devm_kzalloc_after
            dev_printk_after lane_def)
      from Suc.hyps(1) [OF k, of ?p ?l ?d]
      obtain r priv' l' d' where
        rec: "create_phys (Suc i) n ?p (after c t ?l ?d) = (r, priv', after c t (?l @ l') (?d @ d'))"
        and r: "(r = None) = (\<not> list_ex devm_failed d')"
        and pr: "provider priv' = provider ?p" and len: "length (phy priv') = length (phy ?p)"
        and slots: "\<forall>j < length (phy ?p).
          if Suc i \<le> j \<and> j < n
          then (if r = None then phy priv' ! j = lane j
                else phy priv' ! j = lane j \<or> phy priv' ! j = Ptr \<lparr>drvdata = None\<rparr>
                   \<or> phy priv' ! j = NULL \<or> phy priv' ! j = phy ?p ! j)
          else phy priv' ! j = phy ?p ! j"
        by blast
      have eq: "create_phys i n priv (after c t l d) =
          (r, priv', after c t (l @ Info_created_phy i # l') (d @ Phy_create None # Kzalloc True # d'))"
        using unf rec by simp
      have fl: "(r = None) = (\<not> list_ex devm_failed (Phy_create None # Kzalloc True # d'))"
        using r by simp
      have sl: "\<forall>j < length (phy priv).
          if i \<le> j \<and> j < n
          then (if r = None then phy priv' ! j = lane j
                else phy priv' ! j = lane j \<or> phy priv' ! j = Ptr \<lparr>drvdata = None\<rparr>
                   \<or> phy priv' ! j = NULL \<or> phy priv' ! j = phy priv ! j)
          else phy priv' ! j = phy priv ! j"
      proof (intro allI impI)
        fix j assume j: "j < length (phy priv)"
        have s: "if Suc i \<le> j \<and> j < n
          then (if r = None then phy priv' ! j = lane j
                else phy priv' ! j = lane j \<or> phy priv' ! j = Ptr \<lparr>drvdata = None\<rparr>
                   \<or> phy priv' ! j = NULL \<or> phy priv' ! j = phy ?p ! j)
          else phy priv' ! j = phy ?p ! j"
          by (rule slots [rule_format]) (use j in simp)
        show "if i \<le> j \<and> j < n
          then (if r = None then phy priv' ! j = lane j
                else phy priv' ! j = lane j \<or> phy priv' ! j = Ptr \<lparr>drvdata = None\<rparr>
                   \<or> phy priv' ! j = NULL \<or> phy priv' ! j = phy priv ! j)
          else phy priv' ! j = phy priv ! j"
          using s lt j by (cases "j = i") (auto simp: nth_list_update split: if_splits)
      qed
      have pr': "provider priv' = provider priv" and len': "length (phy priv') = length (phy priv)"
        using pr len by simp_all
      from eq fl pr' len' sl show ?thesis by blast
    qed
  qed
qed


lemma if_after:
  "(if b then after c t l d else after c t l' d) = after c t (if b then l else l') d"
  by simp

lemma word_nibble_count [simp]: "unat (8 :: u8) = 8" "unat (4 :: u8) = 4"
  by simp_all

lemma neg_errno [simp]:
  "- EIO <s 0" "- EINVAL <s 0" "- ENOMEM <s 0" "- ENODEV <s 0" "- EOPNOTSUPP <s 0"
  by (simp_all add: EIO_def EINVAL_def ENOMEM_def ENODEV_def EOPNOTSUPP_def word_sless_alt)

lemma create_and_register_after:
  assumes "length (phy priv) = 8" and "n = unat channels" and "n \<le> 8"
  shows "\<exists>ret priv' l' d' tl.
     create_and_register channels priv (after c t l d) = (ret, Some priv', after c t (l @ l') (d @ d' @ tl))
   \<and> length (phy priv') = 8
   \<and> (\<forall>j < 8.
        if j < n
        then phy priv' ! j = lane j \<or> phy priv' ! j = Ptr \<lparr>drvdata = None\<rparr>
           \<or> phy priv' ! j = NULL \<or> phy priv' ! j = phy priv ! j
        else phy priv' ! j = phy priv ! j)
   \<and> (if list_ex devm_failed d'
       then provider priv' = provider priv \<and> list_all (\<lambda>x. \<not> devm_failed x) tl
       else ret = 0 \<and> (\<forall>j < n. phy priv' ! j = lane j)
          \<and> (\<exists>err. tl = [Provider_register err]
                \<and> provider priv' = (case err of None \<Rightarrow> Ptr () | Some e \<Rightarrow> ERR_PTR e)))"
proof -
  from create_phys_after [of 0 n priv c t l d]
  obtain r priv1 l' d' where
    cp: "create_phys 0 n priv (after c t l d) = (r, priv1, after c t (l @ l') (d @ d'))"
    and r: "(r = None) = (\<not> list_ex devm_failed d')"
    and pr: "provider priv1 = provider priv" and len: "length (phy priv1) = length (phy priv)"
    and slots: "\<forall>j < length (phy priv).
        if 0 \<le> j \<and> j < n
        then (if r = None then phy priv1 ! j = lane j
              else phy priv1 ! j = lane j \<or> phy priv1 ! j = Ptr \<lparr>drvdata = None\<rparr>
                 \<or> phy priv1 ! j = NULL \<or> phy priv1 ! j = phy priv ! j)
        else phy priv1 ! j = phy priv ! j"
    by blast
  show ?thesis
  proof (cases r)
    case (Some e)
    let ?tl = "map Phy_destroy (filter (\<lambda>i. phy priv1 ! i \<noteq> NULL) [0..<8])"
    have eq: "create_and_register channels priv (after c t l d) =
        (e, Some priv1, after c t (l @ l') (d @ d' @ ?tl))"
      using cp Some assms(2) by (simp add: create_and_register_def no_provider_after)
    have fl: "list_ex devm_failed d'" using r Some by simp
    have tl: "list_all (\<lambda>x. \<not> devm_failed x) ?tl" by (simp add: list_all_iff)
    have sl: "\<forall>j < 8.
        if j < n
        then phy priv1 ! j = lane j \<or> phy priv1 ! j = Ptr \<lparr>drvdata = None\<rparr>
           \<or> phy priv1 ! j = NULL \<or> phy priv1 ! j = phy priv ! j
        else phy priv1 ! j = phy priv ! j"
      using slots Some assms(1) by (auto split: if_splits)
    from eq fl tl sl pr len assms(1) show ?thesis
      by (intro exI [of _ e] exI [of _ priv1] exI [of _ l'] exI [of _ d'] exI [of _ ?tl]) simp
  next
    case None
    let ?err = "provider_register_err c (devm_calls c @ d @ d')"
    let ?p = "case ?err of None \<Rightarrow> Ptr () | Some e \<Rightarrow> ERR_PTR e"
    have eq: "create_and_register channels priv (after c t l d) =
        (0, Some (priv1\<lparr>provider := ?p\<rparr>), after c t (l @ l') (d @ d' @ [Provider_register ?err]))"
      using cp None assms(2) by (simp add: create_and_register_def devm_register_after)
    have fl: "\<not> list_ex devm_failed d'" using r None by simp
    have sl: "\<forall>j < 8.
        if j < n
        then phy priv1 ! j = lane j \<or> phy priv1 ! j = Ptr \<lparr>drvdata = None\<rparr>
           \<or> phy priv1 ! j = NULL \<or> phy priv1 ! j = phy priv ! j
        else phy priv1 ! j = phy priv ! j"
      using slots None assms(1) by (auto split: if_splits)
    have ln: "\<forall>j < n. phy priv1 ! j = lane j"
      using slots None assms(1,3) by (auto split: if_splits)
    from eq fl sl ln len assms(1) show ?thesis
      by (intro exI [of _ 0] exI [of _ "priv1\<lparr>provider := ?p\<rparr>"] exI [of _ l'] exI [of _ d']
          exI [of _ "[Provider_register ?err]"]) simp
  qed
qed


text \<open>The seven ways through the probe: the allocation fails; one of the first three reads
  fails; the channel configuration is unknown; the fourth read fails; the PHYs are being
  created. \<open>r1\<close> to \<open>r4\<close> are what the adapter returned for the reads of \<open>0xF1\<close>, \<open>0xF0\<close>,
  \<open>0xEF\<close> and \<open>0xF3\<close>.\<close>

lemma probe_cases [consumes 1, case_names nomem id_read ver_read cfg_read cfg_unknown chanver_read created]:
  assumes "ds250dfx10_probe c = (ret, priv, c')"
  obtains
    "ret = - ENOMEM" "priv = None" "c' = after c [] [] [Kzalloc False]"
  | r1 l where "r1 <s 0" "ret = - EIO" "priv = Some priv0"
      "c' = after c [Read_byte 0xF1 r1] l [Kzalloc True]"
  | r1 r2 l where "\<not> r1 <s 0" "r2 <s 0" "ret = - EIO" "priv = Some priv0"
      "c' = after c [Read_byte 0xF1 r1, Read_byte 0xF0 r2] l [Kzalloc True]"
  | r1 r2 r3 l where "\<not> r1 <s 0" "\<not> r2 <s 0" "r3 <s 0" "ret = - EIO" "priv = Some priv0"
      "c' = after c [Read_byte 0xF1 r1, Read_byte 0xF0 r2, Read_byte 0xEF r3] l [Kzalloc True]"
  | r1 r2 r3 l where "\<not> r1 <s 0" "\<not> r2 <s 0" "\<not> r3 <s 0"
      "ucast r3 AND 0x0F \<noteq> (0xC :: u8)" "ucast r3 AND 0x0F \<noteq> (0xE :: u8)"
      "ret = - EINVAL" "priv = Some priv0"
      "c' = after c [Read_byte 0xF1 r1, Read_byte 0xF0 r2, Read_byte 0xEF r3] l [Kzalloc True]"
  | r1 r2 r3 r4 n l where "\<not> r1 <s 0" "\<not> r2 <s 0" "\<not> r3 <s 0"
      "ucast r3 AND 0x0F = (0xC :: u8) \<and> n = 8 \<or> ucast r3 AND 0x0F = (0xE :: u8) \<and> n = 4"
      "r4 <s 0" "ret = - EIO" "priv = Some priv0"
      "c' = after c [Read_byte 0xF1 r1, Read_byte 0xF0 r2, Read_byte 0xEF r3, Read_byte 0xF3 r4] l
              [Kzalloc True]"
      "Info_channels (of_nat n) \<in> set l"
  | r1 r2 r3 r4 n p l d tl where "\<not> r1 <s 0" "\<not> r2 <s 0" "\<not> r3 <s 0"
      "ucast r3 AND 0x0F = (0xC :: u8) \<and> n = 8 \<or> ucast r3 AND 0x0F = (0xE :: u8) \<and> n = 4"
      "\<not> r4 <s 0" "priv = Some p"
      "c' = after c [Read_byte 0xF1 r1, Read_byte 0xF0 r2, Read_byte 0xEF r3, Read_byte 0xF3 r4] l
              (Kzalloc True # d @ tl)"
      "Info_channels (of_nat n) \<in> set l"
      "length (phy p) = 8"
      "\<forall>j < 8. if j < n
         then phy p ! j = lane j \<or> phy p ! j = Ptr \<lparr>drvdata = None\<rparr> \<or> phy p ! j = NULL
         else phy p ! j = NULL"
      "if list_ex devm_failed d
       then provider p = NULL \<and> list_all (\<lambda>x. \<not> devm_failed x) tl
       else ret = 0 \<and> (\<forall>j < n. phy p ! j = lane j)
          \<and> (\<exists>err. tl = [Provider_register err]
                \<and> provider p = (case err of None \<Rightarrow> Ptr () | Some e \<Rightarrow> ERR_PTR e))"
proof -
  note R = that
  have start: "ds250dfx10_probe c = ds250dfx10_probe (after c [] [] [])"
    by (simp add: after_Nil)
  note steps = ds250dfx10_probe_def devm_kzalloc_after read_register_after dev_printk_after
    if_after Let_def priv0_def [symmetric]
    DS250DF410_REG_DEVICE_ID_def DS250DF410_REG_VERSION_def DS250DF410_REG_CHAN_CONFIG_ID_def
    DS250DF410_REG_CHAN_VERSION_def DS250DF410_MASK_CHAN_CONFIG_ID_def
  let ?r1 = "adapter_read c (xfers c) 0xF1"
  let ?r2 = "adapter_read c (xfers c @ [Read_byte 0xF1 ?r1]) 0xF0"
  let ?r3 = "adapter_read c (xfers c @ [Read_byte 0xF1 ?r1, Read_byte 0xF0 ?r2]) 0xEF"
  let ?r4 = "adapter_read c
      (xfers c @ [Read_byte 0xF1 ?r1, Read_byte 0xF0 ?r2, Read_byte 0xEF ?r3]) 0xF3"
  let ?t3 = "[Read_byte 0xF1 ?r1, Read_byte 0xF0 ?r2, Read_byte 0xEF ?r3]"
  let ?t4 = "[Read_byte 0xF1 ?r1, Read_byte 0xF0 ?r2, Read_byte 0xEF ?r3, Read_byte 0xF3 ?r4]"
  let ?l2 = "Info_device_id (ucast ?r1 AND 0xFF) (ucast ?r2 AND 0xFF)
      # (if ucast ?r1 AND 0xFF = (0x10 :: u8) then [] else [Warn_unknown_device_id])"
  show thesis
  proof (cases "kzalloc_ok c (devm_calls c)")
    case False
    have "ds250dfx10_probe c = (- ENOMEM, None, after c [] [] [Kzalloc False])"
      by (subst start) (simp add: steps False)
    with assms have "ret = - ENOMEM" "priv = None" "c' = after c [] [] [Kzalloc False]"
      by simp_all
    then show thesis by (rule R(1))
  next
    case km: True
    show thesis
    proof (cases "?r1 <s 0")
      case True
      have "ds250dfx10_probe c =
          (- EIO, Some priv0, after c [Read_byte 0xF1 ?r1] [Err_read_failed 0xF1 ?r1] [Kzalloc True])"
        by (subst start) (simp add: steps km True)
      with assms have "ret = - EIO" "priv = Some priv0"
        "c' = after c [Read_byte 0xF1 ?r1] [Err_read_failed 0xF1 ?r1] [Kzalloc True]"
        by simp_all
      with True show thesis by (rule R(2))
    next
      case ok1: False
      show thesis
      proof (cases "?r2 <s 0")
        case True
        have "ds250dfx10_probe c =
            (- EIO, Some priv0,
             after c [Read_byte 0xF1 ?r1, Read_byte 0xF0 ?r2] [Err_read_failed 0xF0 ?r2] [Kzalloc True])"
          by (subst start) (simp add: steps km ok1 True)
        with assms have "ret = - EIO" "priv = Some priv0"
          "c' = after c [Read_byte 0xF1 ?r1, Read_byte 0xF0 ?r2] [Err_read_failed 0xF0 ?r2] [Kzalloc True]"
          by simp_all
        with ok1 True show thesis by (rule R(3))
      next
        case ok2: False
        show thesis
        proof (cases "?r3 <s 0")
          case True
          have "ds250dfx10_probe c =
              (- EIO, Some priv0, after c ?t3 (?l2 @ [Err_read_failed 0xEF ?r3]) [Kzalloc True])"
            by (subst start) (simp add: steps km ok1 ok2 True)
          with assms have "ret = - EIO" "priv = Some priv0"
            "c' = after c ?t3 (?l2 @ [Err_read_failed 0xEF ?r3]) [Kzalloc True]"
            by simp_all
          with ok1 ok2 True show thesis by (rule R(4))
        next
          case ok3: False
          let ?id = "ucast ?r3 AND GENMASK 3 0 :: u8"
          have gm: "GENMASK 3 0 = 0x0F"
            by (simp add: GENMASK_def mask_eq_exp_minus_1 numeral_eq_Suc)
          have chan: thesis
            if sel: "(if ?id = 0xC then Some 8 else if ?id = 0xE then Some 4 else None) = Some ch"
              and n: "?id = 0xC \<and> unat ch = 8 \<or> ?id = 0xE \<and> unat ch = 4" for ch :: u8
          proof (cases "?r4 <s 0")
            case True
            let ?l = "?l2 @ [Info_channels ch, Err_read_failed 0xF3 ?r4]"
            have "ds250dfx10_probe c = (- EIO, Some priv0, after c ?t4 ?l [Kzalloc True])"
              by (subst start) (simp add: steps km ok1 ok2 ok3 sel True)
            with assms have e: "ret = - EIO" "priv = Some priv0" "c' = after c ?t4 ?l [Kzalloc True]"
              by simp_all
            have i: "Info_channels (of_nat (unat ch)) \<in> set ?l" by simp
            from ok1 ok2 ok3 n [unfolded gm] True e i show thesis by (rule R(6))
          next
            case ok4: False
            let ?reg = "ucast ?r4 AND 0xFF :: u8"
            let ?l = "?l2 @ [Info_channels ch,
                Info_chan_version (drop_bit 4 (?reg AND DS250DF410_MASK_CHAN_VERSION))
                  (?reg AND DS250DF410_MASK_SHARE_VERSION)]"
            have eq: "ds250dfx10_probe c =
                create_and_register ch priv0 (after c ?t4 ?l [Kzalloc True])"
              by (subst start) (simp add: steps km ok1 ok2 ok3 sel ok4)
            have len0: "length (phy priv0) = 8" by (simp add: priv0_def)
            have le: "unat ch \<le> 8" using n by auto
            from create_and_register_after [OF len0 refl le, of c ?t4 ?l "[Kzalloc True]"]
            obtain ret1 p l' d tl where
              cr: "create_and_register ch priv0 (after c ?t4 ?l [Kzalloc True]) =
                  (ret1, Some p, after c ?t4 (?l @ l') ([Kzalloc True] @ d @ tl))"
              and len: "length (phy p) = 8"
              and slots: "\<forall>j < 8.
                  if j < unat ch
                  then phy p ! j = lane j \<or> phy p ! j = Ptr \<lparr>drvdata = None\<rparr>
                     \<or> phy p ! j = NULL \<or> phy p ! j = phy priv0 ! j
                  else phy p ! j = phy priv0 ! j"
              and out: "if list_ex devm_failed d
                 then provider p = provider priv0 \<and> list_all (\<lambda>x. \<not> devm_failed x) tl
                 else ret1 = 0 \<and> (\<forall>j < unat ch. phy p ! j = lane j)
                    \<and> (\<exists>err. tl = [Provider_register err]
                          \<and> provider p = (case err of None \<Rightarrow> Ptr () | Some e \<Rightarrow> ERR_PTR e))"
              by blast
            from assms eq cr have e: "ret = ret1" "priv = Some p"
              "c' = after c ?t4 (?l @ l') (Kzalloc True # d @ tl)"
              by simp_all
            have i: "Info_channels (of_nat (unat ch)) \<in> set (?l @ l')" by simp
            have slots': "\<forall>j < 8. if j < unat ch
                then phy p ! j = lane j \<or> phy p ! j = Ptr \<lparr>drvdata = None\<rparr> \<or> phy p ! j = NULL
                else phy p ! j = NULL"
              using slots by (auto simp: priv0_def split: if_splits)
            have out': "if list_ex devm_failed d
                 then provider p = NULL \<and> list_all (\<lambda>x. \<not> devm_failed x) tl
                 else ret = 0 \<and> (\<forall>j < unat ch. phy p ! j = lane j)
                    \<and> (\<exists>err. tl = [Provider_register err]
                          \<and> provider p = (case err of None \<Rightarrow> Ptr () | Some e \<Rightarrow> ERR_PTR e))"
              using out e(1) by (simp add: priv0_def split: if_splits)
            from ok1 ok2 ok3 n [unfolded gm] ok4 e(2,3) i len slots' out' show thesis
              by (rule R(7))
          qed
          consider (eight) "?id = 0xC" | (four) "?id = 0xE" | (other) "?id \<noteq> 0xC" "?id \<noteq> 0xE"
            by blast
          then show thesis
          proof cases
            case other
            have "ds250dfx10_probe c =
                (- EINVAL, Some priv0,
                 after c ?t3 (?l2 @ [Err_unknown_chan_config ?id]) [Kzalloc True])"
              by (subst start) (simp add: steps km ok1 ok2 ok3 other)
            with assms have "ret = - EINVAL" "priv = Some priv0"
              "c' = after c ?t3 (?l2 @ [Err_unknown_chan_config ?id]) [Kzalloc True]"
              by simp_all
            with ok1 ok2 ok3 other [unfolded gm] show thesis by (rule R(5))
          next
            case eight
            then show thesis by (intro chan [of 8]) simp_all
          next
            case four
            then show thesis by (intro chan [of 4]) simp_all
          qed
        qed
      qed
    qed
  qed
qed

subsection \<open>Register access and configuration\<close>

lemma write_register_after:
  "ds250dfx10_write_register (after c t l d) a v m =
     (if m = 0xFF then write_new_value (after c t l d) a v
      else let raw = adapter_read c (xfers c @ t) a in
        if raw <s 0 then (- EIO, after c (t @ [Read_byte a raw]) (l @ [Err_read_failed a raw]) d)
        else write_new_value (after c (t @ [Read_byte a raw]) l d) a
               ((v AND m) OR (ucast raw AND NOT m)))"
  by (simp add: ds250dfx10_write_register_def read_register_after Let_def)

lemma write_register_one:
  "\<exists>u. ds250dfx10_write_register (after c t l d) a v m =
          (if list_ex xfer_failed u then - EIO else 0,
           after c (t @ u) (l @ concat (map xfer_error u)) d)
      \<and> one_masked_write (a, v, m) u"
proof (cases "m = 0xFF")
  case True
  show ?thesis
    by (rule exI [of _ "[Write_byte a v (adapter_write c (xfers c @ t) a v)]"])
      (simp add: True write_register_after write_new_value_after Let_def)
next
  case False
  let ?raw = "adapter_read c (xfers c @ t) a"
  show ?thesis
  proof (cases "?raw <s 0")
    case True
    show ?thesis
      by (rule exI [of _ "[Read_byte a ?raw]"]) (simp add: write_register_after False True Let_def)
  next
    case ok: False
    let ?val = "(v AND m) OR (ucast ?raw AND NOT m)"
    show ?thesis
      by (rule exI [of _ "[Read_byte a ?raw,
            Write_byte a ?val (adapter_write c (xfers c @ t @ [Read_byte a ?raw]) a ?val)]"])
        (simp add: write_register_after write_new_value_after False ok Let_def)
  qed
qed

lemma masked_writes_on_bus_Cons:
  assumes "one_masked_write w t" and "masked_writes_on_bus ws t'"
  shows "masked_writes_on_bus (w # ws) (t @ t')"
  by (rule one_masked_write.elims(2) [OF assms(1)]) (use assms in simp_all)

declare masked_writes_on_bus.simps [simp del]

text \<open>A list of masked writes issued through the driver is, on the bus, that sequence of
  masked writes; the or-ed result is \<^verbatim>\<open>-EIO\<close> exactly when a transfer failed, and each
  failed transfer leaves its error line.\<close>

lemma foldl_or_write:
  "\<exists>u. foldl or_write (if p then - EIO else 0, after c t l d) ws =
          (if p \<or> list_ex xfer_failed u then - EIO else 0,
           after c (t @ u) (l @ concat (map xfer_error u)) d)
      \<and> masked_writes_on_bus ws u"
proof (induction ws arbitrary: p t l)
  case Nil
  show ?case by (rule exI [of _ "[]"]) (simp add: masked_writes_on_bus.simps)
next
  case (Cons w ws)
  obtain a v m where w: "w = (a, v, m)" by (cases w)
  obtain u1 where u1: "ds250dfx10_write_register (after c t l d) a v m =
      (if list_ex xfer_failed u1 then - EIO else 0,
       after c (t @ u1) (l @ concat (map xfer_error u1)) d)"
    and b1: "one_masked_write (a, v, m) u1"
    using write_register_one by blast
  have step: "or_write (if p then - EIO else 0, after c t l d) w =
      (if p \<or> list_ex xfer_failed u1 then - EIO else 0,
       after c (t @ u1) (l @ concat (map xfer_error u1)) d)"
    by (simp add: or_write_def w u1)
  obtain u2 where u2: "foldl or_write
        (if p \<or> list_ex xfer_failed u1 then - EIO else 0,
         after c (t @ u1) (l @ concat (map xfer_error u1)) d) ws =
      (if (p \<or> list_ex xfer_failed u1) \<or> list_ex xfer_failed u2 then - EIO else 0,
       after c ((t @ u1) @ u2) ((l @ concat (map xfer_error u1)) @ concat (map xfer_error u2)) d)"
    and b2: "masked_writes_on_bus ws u2"
    using Cons.IH by blast
  have bus: "masked_writes_on_bus (w # ws) (u1 @ u2)"
    unfolding w using b1 b2 by (rule masked_writes_on_bus_Cons)
  have "foldl or_write (if p then - EIO else 0, after c t l d) (w # ws) =
      (if p \<or> list_ex xfer_failed (u1 @ u2) then - EIO else 0,
       after c (t @ u1 @ u2) (l @ concat (map xfer_error (u1 @ u2))) d)"
    unfolding foldl_Cons step u2 by (simp add: disj_assoc)
  with bus show ?case by blast
qed

lemma write_registers_bus:
  "\<exists>u. write_registers c ws =
          (if list_ex xfer_failed u then - EIO else 0, after c u (concat (map xfer_error u)) [])
      \<and> masked_writes_on_bus ws u"
  using foldl_or_write [of False c "[]" "[]" "[]" ws]
  by (simp add: write_registers_def after_Nil)

lemma config_10g_writes:
  "ds250dfx10_config_10g client chan =
     (case write_registers client
        [(0xFF, 0x01, 0x03), (0xFC, chan_select chan, 0xFF), (0x00, 0x04, 0x04),
         (0x0A, 0x0C, 0x0C), (0x2F, 0x00, 0xF0), (0x3D, 0x80, 0x80), (0x3D, 0x00, 0x40),
         (0x3D, 0x0F, 0x1F), (0x3E, 0x40, 0x40), (0x3E, 0x04, 0x0F), (0x3F, 0x40, 0x40),
         (0x3F, 0x04, 0x0F), (0x0A, 0x00, 0x0C)] of
        (ret, client') \<Rightarrow>
          if ret = 0 then dev_printk client' (Info_configured_10g chan) else client')"
  by (simp add: ds250dfx10_config_10g_def write_registers_def or_write_def Let_def case_prod_beta)

lemma config_25g_writes:
  "ds250dfx10_config_25g client chan =
     (case write_registers client
        [(0xFF, 0x01, 0x03), (0xFC, chan_select chan, 0xFF), (0x00, 0x04, 0x04),
         (0x0A, 0x0C, 0x0C), (0x2F, 0x50, 0xF0), (0x3D, 0x80, 0x80), (0x3D, 0x00, 0x40),
         (0x3D, 0x0F, 0x1F), (0x3E, 0x40, 0x40), (0x3E, 0x04, 0x0F), (0x3F, 0x40, 0x40),
         (0x3F, 0x04, 0x0F), (0x0A, 0x00, 0x0C)] of
        (ret, client') \<Rightarrow>
          if ret = 0 then dev_printk client' (Info_configured_25g chan) else client')"
  by (simp add: ds250dfx10_config_25g_def write_registers_def or_write_def Let_def case_prod_beta)

lemma EIO_neq_0 [simp]: "EIO \<noteq> 0"
  by (simp add: EIO_def)

lemma finish_config:
  assumes "write_registers c ws =
      (if list_ex xfer_failed u then - EIO else 0, after c u (concat (map xfer_error u)) [])"
  shows "(case write_registers c ws of
            (ret, client') \<Rightarrow> if ret = 0 then dev_printk client' msg else client') =
         after c u (concat (map xfer_error u) @ (if list_ex xfer_failed u then [] else [msg])) []"
  by (simp add: assms dev_printk_after)

lemma config_10g_bus:
  "\<exists>u. ds250dfx10_config_10g c chan =
         after c u (concat (map xfer_error u)
            @ (if list_ex xfer_failed u then [] else [Info_configured_10g chan])) []
    \<and> masked_writes_on_bus
        [(0xFF, 0x01, 0x03), (0xFC, chan_select chan, 0xFF), (0x00, 0x04, 0x04),
         (0x0A, 0x0C, 0x0C), (0x2F, 0x00, 0xF0), (0x3D, 0x80, 0x80), (0x3D, 0x00, 0x40),
         (0x3D, 0x0F, 0x1F), (0x3E, 0x40, 0x40), (0x3E, 0x04, 0x0F), (0x3F, 0x40, 0x40),
         (0x3F, 0x04, 0x0F), (0x0A, 0x00, 0x0C)] u"
  (is "\<exists>u. _ \<and> masked_writes_on_bus ?ws u")
proof -
  obtain u where w: "write_registers c ?ws =
      (if list_ex xfer_failed u then - EIO else 0, after c u (concat (map xfer_error u)) [])"
    and b: "masked_writes_on_bus ?ws u"
    using write_registers_bus by blast
  have "ds250dfx10_config_10g c chan =
      after c u (concat (map xfer_error u)
        @ (if list_ex xfer_failed u then [] else [Info_configured_10g chan])) []"
    unfolding config_10g_writes by (rule finish_config [OF w])
  with b show ?thesis by blast
qed

lemma config_25g_bus:
  "\<exists>u. ds250dfx10_config_25g c chan =
         after c u (concat (map xfer_error u)
            @ (if list_ex xfer_failed u then [] else [Info_configured_25g chan])) []
    \<and> masked_writes_on_bus
        [(0xFF, 0x01, 0x03), (0xFC, chan_select chan, 0xFF), (0x00, 0x04, 0x04),
         (0x0A, 0x0C, 0x0C), (0x2F, 0x50, 0xF0), (0x3D, 0x80, 0x80), (0x3D, 0x00, 0x40),
         (0x3D, 0x0F, 0x1F), (0x3E, 0x40, 0x40), (0x3E, 0x04, 0x0F), (0x3F, 0x40, 0x40),
         (0x3F, 0x04, 0x0F), (0x0A, 0x00, 0x0C)] u"
  (is "\<exists>u. _ \<and> masked_writes_on_bus ?ws u")
proof -
  obtain u where w: "write_registers c ?ws =
      (if list_ex xfer_failed u then - EIO else 0, after c u (concat (map xfer_error u)) [])"
    and b: "masked_writes_on_bus ?ws u"
    using write_registers_bus by blast
  have "ds250dfx10_config_25g c chan =
      after c u (concat (map xfer_error u)
        @ (if list_ex xfer_failed u then [] else [Info_configured_25g chan])) []"
    unfolding config_25g_writes by (rule finish_config [OF w])
  with b show ?thesis by blast
qed

lemma set_mode_configures:
  "\<exists>u. ds250dfx10_phy_set_mode c d PHY_MODE_ETHERNET PHY_INTERFACE_MODE_10GBASER =
         (0, after c u (concat (map xfer_error u)
            @ (if list_ex xfer_failed u then [] else [Info_configured_10g (channel d)])) [])
    \<and> masked_writes_on_bus
        [(0xFF, 0x01, 0x03), (0xFC, chan_select (channel d), 0xFF), (0x00, 0x04, 0x04),
         (0x0A, 0x0C, 0x0C), (0x2F, 0x00, 0xF0), (0x3D, 0x80, 0x80), (0x3D, 0x00, 0x40),
         (0x3D, 0x0F, 0x1F), (0x3E, 0x40, 0x40), (0x3E, 0x04, 0x0F), (0x3F, 0x40, 0x40),
         (0x3F, 0x04, 0x0F), (0x0A, 0x00, 0x0C)] u"
  "\<exists>u. ds250dfx10_phy_set_mode c d PHY_MODE_ETHERNET PHY_INTERFACE_MODE_25GBASER =
         (0, after c u (concat (map xfer_error u)
            @ (if list_ex xfer_failed u then [] else [Info_configured_25g (channel d)])) [])
    \<and> masked_writes_on_bus
        [(0xFF, 0x01, 0x03), (0xFC, chan_select (channel d), 0xFF), (0x00, 0x04, 0x04),
         (0x0A, 0x0C, 0x0C), (0x2F, 0x50, 0xF0), (0x3D, 0x80, 0x80), (0x3D, 0x00, 0x40),
         (0x3D, 0x0F, 0x1F), (0x3E, 0x40, 0x40), (0x3E, 0x04, 0x0F), (0x3F, 0x40, 0x40),
         (0x3F, 0x04, 0x0F), (0x0A, 0x00, 0x0C)] u"
proof -
  have "ds250dfx10_phy_set_mode c d PHY_MODE_ETHERNET PHY_INTERFACE_MODE_10GBASER =
      (0, ds250dfx10_config_10g c (channel d))"
    by (simp add: ds250dfx10_phy_set_mode_def)
  then show "\<exists>u. ds250dfx10_phy_set_mode c d PHY_MODE_ETHERNET PHY_INTERFACE_MODE_10GBASER =
         (0, after c u (concat (map xfer_error u)
            @ (if list_ex xfer_failed u then [] else [Info_configured_10g (channel d)])) [])
    \<and> masked_writes_on_bus
        [(0xFF, 0x01, 0x03), (0xFC, chan_select (channel d), 0xFF), (0x00, 0x04, 0x04),
         (0x0A, 0x0C, 0x0C), (0x2F, 0x00, 0xF0), (0x3D, 0x80, 0x80), (0x3D, 0x00, 0x40),
         (0x3D, 0x0F, 0x1F), (0x3E, 0x40, 0x40), (0x3E, 0x04, 0x0F), (0x3F, 0x40, 0x40),
         (0x3F, 0x04, 0x0F), (0x0A, 0x00, 0x0C)] u"
    using config_10g_bus [of c "channel d"] by (simp only: prod.inject simp_thms)
  have "ds250dfx10_phy_set_mode c d PHY_MODE_ETHERNET PHY_INTERFACE_MODE_25GBASER =
      (0, ds250dfx10_config_25g c (channel d))"
    by (simp add: ds250dfx10_phy_set_mode_def)
  then show "\<exists>u. ds250dfx10_phy_set_mode c d PHY_MODE_ETHERNET PHY_INTERFACE_MODE_25GBASER =
         (0, after c u (concat (map xfer_error u)
            @ (if list_ex xfer_failed u then [] else [Info_configured_25g (channel d)])) [])
    \<and> masked_writes_on_bus
        [(0xFF, 0x01, 0x03), (0xFC, chan_select (channel d), 0xFF), (0x00, 0x04, 0x04),
         (0x0A, 0x0C, 0x0C), (0x2F, 0x50, 0xF0), (0x3D, 0x80, 0x80), (0x3D, 0x00, 0x40),
         (0x3D, 0x0F, 0x1F), (0x3E, 0x40, 0x40), (0x3E, 0x04, 0x0F), (0x3F, 0x40, 0x40),
         (0x3F, 0x04, 0x0F), (0x0A, 0x00, 0x0C)] u"
    using config_25g_bus [of c "channel d"] by (simp only: prod.inject simp_thms)
qed

subsection \<open>Runs on the concrete devices\<close>

lemma rate_write_nak_sel:
  "adapter_read rate_write_nak = (\<lambda>h a. 0xA5)"
  "adapter_write rate_write_nak = (\<lambda>h a v. if a = 0x2F then - ENXIO else 0)"
  "xfers rate_write_nak = []" "dmesg rate_write_nak = []" "devm_calls rate_write_nak = []"
  by (simp_all add: rate_write_nak_def static_client_def)

lemma set_mode_25g_rate_write_nak:
  "ds250dfx10_phy_set_mode rate_write_nak \<lparr>channel = 2\<rparr> PHY_MODE_ETHERNET
       PHY_INTERFACE_MODE_25GBASER =
     (0, after rate_write_nak
          [Read_byte 0xFF 0xA5, Write_byte 0xFF 0xA5 0,
           Write_byte 0xFC 0x04 0,
           Read_byte 0x00 0xA5, Write_byte 0x00 0xA5 0,
           Read_byte 0x0A 0xA5, Write_byte 0x0A 0xAD 0,
           Read_byte 0x2F 0xA5, Write_byte 0x2F 0x55 (- ENXIO),
           Read_byte 0x3D 0xA5, Write_byte 0x3D 0xA5 0,
           Read_byte 0x3D 0xA5, Write_byte 0x3D 0xA5 0,
           Read_byte 0x3D 0xA5, Write_byte 0x3D 0xAF 0,
           Read_byte 0x3E 0xA5, Write_byte 0x3E 0xE5 0,
           Read_byte 0x3E 0xA5, Write_byte 0x3E 0xA4 0,
           Read_byte 0x3F 0xA5, Write_byte 0x3F 0xE5 0,
           Read_byte 0x3F 0xA5, Write_byte 0x3F 0xA4 0,
           Read_byte 0x0A 0xA5, Write_byte 0x0A 0xA1 0]
        [Err_write_failed 0x2F 0x55 (- ENXIO)] [])"
proof -
  have "ds250dfx10_phy_set_mode (after rate_write_nak [] [] []) \<lparr>channel = 2\<rparr> PHY_MODE_ETHERNET
       PHY_INTERFACE_MODE_25GBASER =
     (0, after rate_write_nak
          [Read_byte 0xFF 0xA5, Write_byte 0xFF 0xA5 0,
           Write_byte 0xFC 0x04 0,
           Read_byte 0x00 0xA5, Write_byte 0x00 0xA5 0,
           Read_byte 0x0A 0xA5, Write_byte 0x0A 0xAD 0,
           Read_byte 0x2F 0xA5, Write_byte 0x2F 0x55 (- ENXIO),
           Read_byte 0x3D 0xA5, Write_byte 0x3D 0xA5 0,
           Read_byte 0x3D 0xA5, Write_byte 0x3D 0xA5 0,
           Read_byte 0x3D 0xA5, Write_byte 0x3D 0xAF 0,
           Read_byte 0x3E 0xA5, Write_byte 0x3E 0xE5 0,
           Read_byte 0x3E 0xA5, Write_byte 0x3E 0xA4 0,
           Read_byte 0x3F 0xA5, Write_byte 0x3F 0xE5 0,
           Read_byte 0x3F 0xA5, Write_byte 0x3F 0xA4 0,
           Read_byte 0x0A 0xA5, Write_byte 0x0A 0xA1 0]
        [Err_write_failed 0x2F 0x55 (- ENXIO)] [])"
    by (simp add: ds250dfx10_phy_set_mode_def ds250dfx10_config_25g_def rate_write_nak_sel
        write_register_after write_new_value_after dev_printk_after
        chan_select_def ENXIO_def EIO_def word_sless_alt Let_def)
  then show ?thesis by (simp only: after_Nil)
qed

subsection \<open>The range check of the lookup\<close>

text \<open>Sign extension to 64 bits followed by an unsigned comparison with 8 is the unsigned
  comparison of the 32-bit cell with 8.\<close>

lemma scast_less_8: "((scast (x :: 32 word) :: 64 word) < 8) = (x < 8)"
proof -
  have a: "((scast x :: 64 word) < 2 ^ 3) = (take_bit 3 (scast x :: 64 word) = scast x)"
    by (simp add: take_bit_eq_mask mask_eq_iff_w2p word_size)
  have b: "(x < 2 ^ 3) = (take_bit 3 x = x)"
    by (simp add: take_bit_eq_mask mask_eq_iff_w2p word_size)
  have c: "(take_bit 3 (scast x :: 64 word) = scast x) = (take_bit 3 x = x)"
  proof
    assume l: "take_bit 3 (scast x :: 64 word) = scast x"
    show "take_bit 3 x = x"
    proof (rule bit_word_eqI)
      fix n assume n: "n < LENGTH(32)"
      have "bit (take_bit 3 (scast x :: 64 word)) n = bit (scast x :: 64 word) n"
        by (simp only: l)
      with n show "bit (take_bit 3 x) n = bit x n"
        by (cases "n = 31") (auto simp: bit_simps min_def split: if_splits)
    qed
  next
    assume r: "take_bit 3 x = x"
    have nb: "n < 3" if "bit x n" for n
    proof -
      have "bit (take_bit 3 x) n = bit x n" by (simp only: r)
      with that show ?thesis by (auto simp: bit_simps)
    qed
    show "take_bit 3 (scast x :: 64 word) = scast x"
      by (rule bit_word_eqI) (auto simp: bit_simps min_def dest: nb)
  qed
  from a b c show ?thesis by simp
qed

lemma xlate_range: "((8 :: 64 word) \<le> scast (x :: 32 word)) = (8 \<le> unat x)"
proof -
  have "((8 :: 64 word) \<le> scast x) = (\<not> (scast x :: 64 word) < 8)" by auto
  also have "\<dots> = (\<not> x < 8)" by (simp only: scast_less_8)
  also have "\<dots> = (8 \<le> unat x)" by (simp add: word_less_nat_alt not_less)
  finally show ?thesis .
qed

subsection \<open>Probing the concrete devices\<close>

lemma static_client_sel:
  "adapter_read (static_client rd wr) = (\<lambda>h. rd)"
  "adapter_write (static_client rd wr) = (\<lambda>h. wr)"
  "xfers (static_client rd wr) = []" "dmesg (static_client rd wr) = []"
  "devm_calls (static_client rd wr) = []"
  "kzalloc_ok (static_client rd wr) = (\<lambda>h. True)"
  "phy_create_err (static_client rd wr) = (\<lambda>h. None)"
  "provider_register_err (static_client rd wr) = (\<lambda>h. None)"
  by (simp_all add: static_client_def)

lemma GENMASK_values: "GENMASK 3 0 = 0x0F" "GENMASK 7 4 = 0xF0"
  by (simp_all add: GENMASK_def mask_eq_exp_minus_1 numeral_eq_Suc)

lemma replicate_8: "replicate 8 x = [x, x, x, x, x, x, x, x]"
  by (simp add: numeral_eq_Suc)

lemmas probe_steps =
  ds250dfx10_probe_def devm_kzalloc_after read_register_after dev_printk_after
  create_and_register_def devm_phy_create_after devm_register_after no_provider_after
  create_phys.simps Let_def replicate_8
  DS250DF410_REG_DEVICE_ID_def DS250DF410_REG_VERSION_def DS250DF410_REG_CHAN_CONFIG_ID_def
  DS250DF410_REG_CHAN_VERSION_def DS250DF410_MASK_CHAN_CONFIG_ID_def
  DS250DF410_MASK_CHAN_VERSION_def DS250DF410_MASK_SHARE_VERSION_def GENMASK_values
  word_sless_alt

lemma probe_ds250df410:
  "ds250dfx10_probe ds250df410 =
     (0, Some \<lparr>phy = [lane 0, lane 1, lane 2, lane 3, NULL, NULL, NULL, NULL], provider = Ptr ()\<rparr>,
      after ds250df410
        [Read_byte 0xF1 0x10, Read_byte 0xF0 0x02, Read_byte 0xEF 0x0E, Read_byte 0xF3 0xA5]
        [Info_device_id 0x10 0x02, Info_channels 4, Info_chan_version 0xA 0x5,
         Info_created_phy 0, Info_created_phy 1, Info_created_phy 2, Info_created_phy 3]
        [Kzalloc True, Phy_create None, Kzalloc True, Phy_create None, Kzalloc True,
         Phy_create None, Kzalloc True, Phy_create None, Kzalloc True, Provider_register None])"
proof -
  have "ds250dfx10_probe (after ds250df410 [] [] []) =
     (0, Some \<lparr>phy = [lane 0, lane 1, lane 2, lane 3, NULL, NULL, NULL, NULL], provider = Ptr ()\<rparr>,
      after ds250df410
        [Read_byte 0xF1 0x10, Read_byte 0xF0 0x02, Read_byte 0xEF 0x0E, Read_byte 0xF3 0xA5]
        [Info_device_id 0x10 0x02, Info_channels 4, Info_chan_version 0xA 0x5,
         Info_created_phy 0, Info_created_phy 1, Info_created_phy 2, Info_created_phy 3]
        [Kzalloc True, Phy_create None, Kzalloc True, Phy_create None, Kzalloc True,
         Phy_create None, Kzalloc True, Phy_create None, Kzalloc True, Provider_register None])"
    by (simp add: probe_steps ds250df410_def static_client_sel lane_def)
  then show ?thesis by (simp only: after_Nil)
qed


lemma probe_absent_device:
  "ds250dfx10_probe absent_device =
     (- EIO, Some \<lparr>phy = replicate 8 NULL, provider = NULL\<rparr>,
      after absent_device [Read_byte 0xF1 (- ENXIO)] [Err_read_failed 0xF1 (- ENXIO)]
        [Kzalloc True])"
proof -
  have "ds250dfx10_probe (after absent_device [] [] []) =
     (- EIO, Some \<lparr>phy = replicate 8 NULL, provider = NULL\<rparr>,
      after absent_device [Read_byte 0xF1 (- ENXIO)] [Err_read_failed 0xF1 (- ENXIO)]
        [Kzalloc True])"
    by (simp add: probe_steps absent_device_def static_client_sel ENXIO_def)
  then show ?thesis by (simp only: after_Nil)
qed

lemma probe_unknown_topology:
  "ds250dfx10_probe unknown_topology =
     (- EINVAL, Some \<lparr>phy = replicate 8 NULL, provider = NULL\<rparr>,
      after unknown_topology [Read_byte 0xF1 0x10, Read_byte 0xF0 0x02, Read_byte 0xEF 0x03]
        [Info_device_id 0x10 0x02, Err_unknown_chan_config 0x03] [Kzalloc True])"
proof -
  have "ds250dfx10_probe (after unknown_topology [] [] []) =
     (- EINVAL, Some \<lparr>phy = replicate 8 NULL, provider = NULL\<rparr>,
      after unknown_topology [Read_byte 0xF1 0x10, Read_byte 0xF0 0x02, Read_byte 0xEF 0x03]
        [Info_device_id 0x10 0x02, Err_unknown_chan_config 0x03] [Kzalloc True])"
    by (simp add: probe_steps unknown_topology_def static_client_sel)
  then show ?thesis by (simp only: after_Nil)
qed

subsection \<open>Slots and lookups\<close>

lemma errno_neq_0 [simp]: "EINVAL \<noteq> 0" "ENOMEM \<noteq> 0" "ENODEV \<noteq> 0" "EOPNOTSUPP \<noteq> 0"
  by (simp_all add: EINVAL_def ENOMEM_def ENODEV_def EOPNOTSUPP_def)

lemma lane_neq_NULL [simp]: "lane i \<noteq> NULL" "NULL \<noteq> lane i"
  by (simp_all add: lane_def)

lemma unat_of_nat_u8: "j < 8 \<Longrightarrow> unat (of_nat j :: u8) = j"
  by (simp add: unat_of_nat)

lemma of_xlate_slots:
  assumes len: "length (phy p) = 8" and n: "n \<le> 8"
    and lanes: "\<forall>j < n. phy p ! j = lane j"
    and rest: "\<forall>j < 8. \<not> j < n \<longrightarrow> phy p ! j = NULL"
  shows "ds250dfx10_of_xlate p a =
     (if args_count a = 1 \<and> unat (args a 0) < n then lane (unat (args a 0))
      else ERR_PTR (- ENODEV))"
proof (cases "args_count a = 1")
  case False
  then show ?thesis by (simp add: ds250dfx10_of_xlate_def)
next
  case one: True
  show ?thesis
  proof (cases "8 \<le> unat (args a 0)")
    case True
    with one n show ?thesis by (simp add: ds250dfx10_of_xlate_def xlate_range)
  next
    case False
    then have lt: "unat (args a 0) < 8" by simp
    show ?thesis
    proof (cases "unat (args a 0) < n")
      case True
      with lanes have "phy p ! unat (args a 0) = lane (unat (args a 0))" by simp
      with one False True show ?thesis by (simp add: ds250dfx10_of_xlate_def xlate_range)
    next
      case ge: False
      with rest lt have "phy p ! unat (args a 0) = NULL" by simp
      with one False ge show ?thesis by (simp add: ds250dfx10_of_xlate_def xlate_range)
    qed
  qed
qed

lemma slots_eq:
  assumes len: "length xs = 8" and n: "n \<le> 8"
    and lanes: "\<forall>j < n. xs ! j = lane j"
    and rest: "\<forall>j < 8. if j < n then P j else xs ! j = NULL"
  shows "xs = map lane [0..<n] @ replicate (8 - n) NULL"
proof (rule nth_equalityI)
  show "length xs = length (map lane [0..<n] @ replicate (8 - n) NULL)"
    using len n by simp
next
  fix i assume "i < length xs"
  then have i: "i < 8" using len by simp
  show "xs ! i = (map lane [0..<n] @ replicate (8 - n) NULL) ! i"
  proof (cases "i < n")
    case True
    with lanes show ?thesis by (simp add: nth_append)
  next
    case False
    with rest i have "xs ! i = NULL" by (auto split: if_splits)
    with False i n show ?thesis by (simp add: nth_append)
  qed
qed

lemma probe_ds250df810:
  "ds250dfx10_probe ds250df810 =
     (0, Some \<lparr>phy = [lane 0, lane 1, lane 2, lane 3, lane 4, lane 5, lane 6, lane 7],
               provider = Ptr ()\<rparr>,
      after ds250df810
        [Read_byte 0xF1 0x10, Read_byte 0xF0 0x02, Read_byte 0xEF 0x3C, Read_byte 0xF3 0xA5]
        [Info_device_id 0x10 0x02, Info_channels 8, Info_chan_version 0xA 0x5,
         Info_created_phy 0, Info_created_phy 1, Info_created_phy 2, Info_created_phy 3,
         Info_created_phy 4, Info_created_phy 5, Info_created_phy 6, Info_created_phy 7]
        [Kzalloc True, Phy_create None, Kzalloc True, Phy_create None, Kzalloc True,
         Phy_create None, Kzalloc True, Phy_create None, Kzalloc True,
         Phy_create None, Kzalloc True, Phy_create None, Kzalloc True,
         Phy_create None, Kzalloc True, Phy_create None, Kzalloc True, Provider_register None])"
proof -
  have "ds250dfx10_probe (after ds250df810 [] [] []) =
     (0, Some \<lparr>phy = [lane 0, lane 1, lane 2, lane 3, lane 4, lane 5, lane 6, lane 7],
               provider = Ptr ()\<rparr>,
      after ds250df810
        [Read_byte 0xF1 0x10, Read_byte 0xF0 0x02, Read_byte 0xEF 0x3C, Read_byte 0xF3 0xA5]
        [Info_device_id 0x10 0x02, Info_channels 8, Info_chan_version 0xA 0x5,
         Info_created_phy 0, Info_created_phy 1, Info_created_phy 2, Info_created_phy 3,
         Info_created_phy 4, Info_created_phy 5, Info_created_phy 6, Info_created_phy 7]
        [Kzalloc True, Phy_create None, Kzalloc True, Phy_create None, Kzalloc True,
         Phy_create None, Kzalloc True, Phy_create None, Kzalloc True,
         Phy_create None, Kzalloc True, Phy_create None, Kzalloc True,
         Phy_create None, Kzalloc True, Phy_create None, Kzalloc True, Provider_register None])"
    by (simp add: probe_steps ds250df810_def static_client_sel lane_def)
  then show ?thesis by (simp only: after_Nil)
qed

lemma upt_8: "[0..<8] = [0, 1, 2, 3, 4, 5, 6, 7]" "[0..<4] = [0, 1, 2, 3]"
  by (simp_all add: upt_rec)

text \<open>The second masked write of a sequence, when it has the full mask, is on the bus as a
  write of its value.\<close>

lemma select_on_bus:
  assumes "masked_writes_on_bus (w # (a, v, 0xFF) # ws) u"
  shows "\<exists>r. Write_byte a v r \<in> set u"
proof -
  let ?u = "drop (first_xfers u) u"
  from assms have "one_masked_write (a, v, 0xFF) (take (first_xfers ?u) ?u)"
    by (simp add: masked_writes_on_bus.simps)
  then obtain r where "take (first_xfers ?u) ?u = [Write_byte a v r]"
    by (rule one_masked_write.elims(2)) auto
  then have "Write_byte a v r \<in> set (take (first_xfers ?u) ?u)" by simp
  then have "Write_byte a v r \<in> set u"
    by (meson in_set_dropD in_set_takeD)
  then show ?thesis ..
qed

lemma chan_select_one_hot:
  assumes "j < 8"
  shows "chan_select (of_nat j) = 2 ^ j" and "bit (chan_select (of_nat j)) k = (k = j)"
proof -
  have u: "unat (of_nat j :: u8) = j" using assms by (rule unat_of_nat_u8)
  show "chan_select (of_nat j) = 2 ^ j"
    unfolding chan_select_def u by (rule bit_word_eqI) (auto simp: bit_simps)
  show "bit (chan_select (of_nat j)) k = (k = j)"
    unfolding chan_select_def u using assms by (auto simp: bit_simps)
qed

lemma write_register_xfers:
  "new_xfers c (snd (ds250dfx10_write_register c a v m)) =
     (if m = 0xFF then [Write_byte a v (adapter_write c (xfers c) a v)]
      else let raw = adapter_read c (xfers c) a in
           if raw <s 0 then [Read_byte a raw]
           else let preserved_bits = ucast raw AND NOT m;
                    val = (v AND m) OR preserved_bits
                in [Read_byte a raw,
                    Write_byte a val (adapter_write c (xfers c @ [Read_byte a raw]) a val)])"
proof -
  have "new_xfers c (snd (ds250dfx10_write_register (after c [] [] []) a v m)) =
     (if m = 0xFF then [Write_byte a v (adapter_write c (xfers c) a v)]
      else let raw = adapter_read c (xfers c) a in
           if raw <s 0 then [Read_byte a raw]
           else let preserved_bits = ucast raw AND NOT m;
                    val = (v AND m) OR preserved_bits
                in [Read_byte a raw,
                    Write_byte a val (adapter_write c (xfers c @ [Read_byte a raw]) a val)])"
    by (simp add: write_register_after write_new_value_after Let_def)
  then show ?thesis by (simp only: after_Nil)
qed

section \<open>The claims\<close>

text \<open>In the theorems below \<open>c\<close> is any client: any adapter, healthy or failing, with any
  history, and any outcome of the managed-resource calls.\<close>

subsection \<open>C1: the sequence of masked writes\<close>

text \<open>Claim C1. For every channel and both rates, what the configuration function puts
  on the bus is exactly the following thirteen masked writes \<open>(address, value, mask)\<close>, in
  this order and with no other transfer before, between or after them: paging \<open>0xFF\<close> value
  \<open>0x01\<close> mask \<open>0x03\<close>; channel select \<open>0xFC\<close> value \<open>1 << channel\<close> with the full mask;
  channel reset \<open>0x00\<close> bit \<open>0x04\<close>; CDR hold \<open>0x0A\<close> bits \<open>0x0C\<close>; line rate \<open>0x2F\<close> high
  nibble (\<open>0x00\<close> for 10G, \<open>0x50\<close> for 25G); tap enable \<open>0x3D\<close> bit \<open>0x80\<close>; main cursor sign
  (\<open>0x40\<close> cleared) and magnitude \<open>0x0F\<close> at \<open>0x3D\<close>; pre cursor sign \<open>0x40\<close> and magnitude
  \<open>0x04\<close> at \<open>0x3E\<close>; post cursor the same at \<open>0x3F\<close>; CDR release \<open>0x0A\<close> clearing \<open>0x0C\<close>
  last. A masked write on the bus is the single write of the value when the mask is full,
  and otherwise the read of the register followed, when the read succeeded, by the write
  of the merged value. The CDR hold is the fourth write and the line rate the fifth. The
  function changes nothing else of the client than the transfer trace and the log, which
  gets one error line for each failed transfer and the success line exactly when no
  transfer failed; it makes no managed-resource call. In terms of the register access
  function, it is the thirteen calls of \<^verbatim>\<open>ds250dfx10_write_register\<close> in this order, the
  results or-ed.\<close>

theorem config_issues_masked_writes:
  "masked_writes_on_bus
        [(0xFF, 0x01, 0x03), (0xFC, chan_select chan, 0xFF), (0x00, 0x04, 0x04),
         (0x0A, 0x0C, 0x0C), (0x2F, 0x00, 0xF0), (0x3D, 0x80, 0x80), (0x3D, 0x00, 0x40),
         (0x3D, 0x0F, 0x1F), (0x3E, 0x40, 0x40), (0x3E, 0x04, 0x0F), (0x3F, 0x40, 0x40),
         (0x3F, 0x04, 0x0F), (0x0A, 0x00, 0x0C)]
        (new_xfers client (ds250dfx10_config_10g client chan))
   \<and> masked_writes_on_bus
        [(0xFF, 0x01, 0x03), (0xFC, chan_select chan, 0xFF), (0x00, 0x04, 0x04),
         (0x0A, 0x0C, 0x0C), (0x2F, 0x50, 0xF0), (0x3D, 0x80, 0x80), (0x3D, 0x00, 0x40),
         (0x3D, 0x0F, 0x1F), (0x3E, 0x40, 0x40), (0x3E, 0x04, 0x0F), (0x3F, 0x40, 0x40),
         (0x3F, 0x04, 0x0F), (0x0A, 0x00, 0x0C)]
        (new_xfers client (ds250dfx10_config_25g client chan))
   \<and> ds250dfx10_config_10g client chan =
     after client (new_xfers client (ds250dfx10_config_10g client chan))
       (concat (map xfer_error (new_xfers client (ds250dfx10_config_10g client chan)))
          @ (if list_ex xfer_failed (new_xfers client (ds250dfx10_config_10g client chan))
             then [] else [Info_configured_10g chan]))
       []
   \<and> ds250dfx10_config_25g client chan =
     after client (new_xfers client (ds250dfx10_config_25g client chan))
       (concat (map xfer_error (new_xfers client (ds250dfx10_config_25g client chan)))
          @ (if list_ex xfer_failed (new_xfers client (ds250dfx10_config_25g client chan))
             then [] else [Info_configured_25g chan]))
       []
   \<and> ds250dfx10_config_10g client chan =
     (case write_registers client
        [(0xFF, 0x01, 0x03), (0xFC, chan_select chan, 0xFF), (0x00, 0x04, 0x04),
         (0x0A, 0x0C, 0x0C), (0x2F, 0x00, 0xF0), (0x3D, 0x80, 0x80), (0x3D, 0x00, 0x40),
         (0x3D, 0x0F, 0x1F), (0x3E, 0x40, 0x40), (0x3E, 0x04, 0x0F), (0x3F, 0x40, 0x40),
         (0x3F, 0x04, 0x0F), (0x0A, 0x00, 0x0C)] of
        (ret, client') \<Rightarrow>
          if ret = 0 then dev_printk client' (Info_configured_10g chan) else client')
   \<and> ds250dfx10_config_25g client chan =
     (case write_registers client
        [(0xFF, 0x01, 0x03), (0xFC, chan_select chan, 0xFF), (0x00, 0x04, 0x04),
         (0x0A, 0x0C, 0x0C), (0x2F, 0x50, 0xF0), (0x3D, 0x80, 0x80), (0x3D, 0x00, 0x40),
         (0x3D, 0x0F, 0x1F), (0x3E, 0x40, 0x40), (0x3E, 0x04, 0x0F), (0x3F, 0x40, 0x40),
         (0x3F, 0x04, 0x0F), (0x0A, 0x00, 0x0C)] of
        (ret, client') \<Rightarrow>
          if ret = 0 then dev_printk client' (Info_configured_25g chan) else client')
   \<and> chan_select chan = push_bit (unat chan) 1"
proof -
  obtain u10 where e10: "ds250dfx10_config_10g client chan =
         after client u10 (concat (map xfer_error u10)
            @ (if list_ex xfer_failed u10 then [] else [Info_configured_10g chan])) []"
    and b10: "masked_writes_on_bus
        [(0xFF, 0x01, 0x03), (0xFC, chan_select chan, 0xFF), (0x00, 0x04, 0x04),
         (0x0A, 0x0C, 0x0C), (0x2F, 0x00, 0xF0), (0x3D, 0x80, 0x80), (0x3D, 0x00, 0x40),
         (0x3D, 0x0F, 0x1F), (0x3E, 0x40, 0x40), (0x3E, 0x04, 0x0F), (0x3F, 0x40, 0x40),
         (0x3F, 0x04, 0x0F), (0x0A, 0x00, 0x0C)] u10"
    using config_10g_bus by blast
  have x10: "new_xfers client (ds250dfx10_config_10g client chan) = u10"
    by (simp only: e10 new_after)
  have bus10: "masked_writes_on_bus
        [(0xFF, 0x01, 0x03), (0xFC, chan_select chan, 0xFF), (0x00, 0x04, 0x04),
         (0x0A, 0x0C, 0x0C), (0x2F, 0x00, 0xF0), (0x3D, 0x80, 0x80), (0x3D, 0x00, 0x40),
         (0x3D, 0x0F, 0x1F), (0x3E, 0x40, 0x40), (0x3E, 0x04, 0x0F), (0x3F, 0x40, 0x40),
         (0x3F, 0x04, 0x0F), (0x0A, 0x00, 0x0C)]
        (new_xfers client (ds250dfx10_config_10g client chan))"
    unfolding x10 by (rule b10)
  have eq10: "ds250dfx10_config_10g client chan =
     after client (new_xfers client (ds250dfx10_config_10g client chan))
       (concat (map xfer_error (new_xfers client (ds250dfx10_config_10g client chan)))
          @ (if list_ex xfer_failed (new_xfers client (ds250dfx10_config_10g client chan))
             then [] else [Info_configured_10g chan]))
       []"
    unfolding x10 by (rule e10)
  obtain u25 where e25: "ds250dfx10_config_25g client chan =
         after client u25 (concat (map xfer_error u25)
            @ (if list_ex xfer_failed u25 then [] else [Info_configured_25g chan])) []"
    and b25: "masked_writes_on_bus
        [(0xFF, 0x01, 0x03), (0xFC, chan_select chan, 0xFF), (0x00, 0x04, 0x04),
         (0x0A, 0x0C, 0x0C), (0x2F, 0x50, 0xF0), (0x3D, 0x80, 0x80), (0x3D, 0x00, 0x40),
         (0x3D, 0x0F, 0x1F), (0x3E, 0x40, 0x40), (0x3E, 0x04, 0x0F), (0x3F, 0x40, 0x40),
         (0x3F, 0x04, 0x0F), (0x0A, 0x00, 0x0C)] u25"
    using config_25g_bus by blast
  have x25: "new_xfers client (ds250dfx10_config_25g client chan) = u25"
    by (simp only: e25 new_after)
  have bus25: "masked_writes_on_bus
        [(0xFF, 0x01, 0x03), (0xFC, chan_select chan, 0xFF), (0x00, 0x04, 0x04),
         (0x0A, 0x0C, 0x0C), (0x2F, 0x50, 0xF0), (0x3D, 0x80, 0x80), (0x3D, 0x00, 0x40),
         (0x3D, 0x0F, 0x1F), (0x3E, 0x40, 0x40), (0x3E, 0x04, 0x0F), (0x3F, 0x40, 0x40),
         (0x3F, 0x04, 0x0F), (0x0A, 0x00, 0x0C)]
        (new_xfers client (ds250dfx10_config_25g client chan))"
    unfolding x25 by (rule b25)
  have eq25: "ds250dfx10_config_25g client chan =
     after client (new_xfers client (ds250dfx10_config_25g client chan))
       (concat (map xfer_error (new_xfers client (ds250dfx10_config_25g client chan)))
          @ (if list_ex xfer_failed (new_xfers client (ds250dfx10_config_25g client chan))
             then [] else [Info_configured_25g chan]))
       []"
    unfolding x25 by (rule e25)
  have sel: "chan_select chan = push_bit (unat chan) 1"
    unfolding chan_select_def by (rule bit_word_eqI) (auto simp: bit_simps)
  have ral10: "ds250dfx10_config_10g client chan =
     (case write_registers client
        [(0xFF, 0x01, 0x03), (0xFC, chan_select chan, 0xFF), (0x00, 0x04, 0x04),
         (0x0A, 0x0C, 0x0C), (0x2F, 0x00, 0xF0), (0x3D, 0x80, 0x80), (0x3D, 0x00, 0x40),
         (0x3D, 0x0F, 0x1F), (0x3E, 0x40, 0x40), (0x3E, 0x04, 0x0F), (0x3F, 0x40, 0x40),
         (0x3F, 0x04, 0x0F), (0x0A, 0x00, 0x0C)] of
        (ret, client') \<Rightarrow>
          if ret = 0 then dev_printk client' (Info_configured_10g chan) else client')"
    by (rule config_10g_writes)
  have ral25: "ds250dfx10_config_25g client chan =
     (case write_registers client
        [(0xFF, 0x01, 0x03), (0xFC, chan_select chan, 0xFF), (0x00, 0x04, 0x04),
         (0x0A, 0x0C, 0x0C), (0x2F, 0x50, 0xF0), (0x3D, 0x80, 0x80), (0x3D, 0x00, 0x40),
         (0x3D, 0x0F, 0x1F), (0x3E, 0x40, 0x40), (0x3E, 0x04, 0x0F), (0x3F, 0x40, 0x40),
         (0x3F, 0x04, 0x0F), (0x0A, 0x00, 0x0C)] of
        (ret, client') \<Rightarrow>
          if ret = 0 then dev_printk client' (Info_configured_25g chan) else client')"
    by (rule config_25g_writes)
  show ?thesis
    by (intro conjI) (rule bus10 bus25 eq10 eq25 ral10 ral25 sel)+
qed

subsection \<open>C2: continue on error\<close>

text \<open>Claim C2, amended. For every channel and both rates, on every bus, also one on which
  transfers fail, \<^verbatim>\<open>set_mode\<close> attempts each of the thirteen masked writes (a masked write
  whose read fails is left at that read, and the next one is still attempted). The failure
  is not returned: the configuration functions return nothing and \<^verbatim>\<open>set_mode\<close> returns 0.
  It shows in the log only: one error line for each failed transfer, and the line
  ``configured channel'' exactly when no transfer failed.\<close>

theorem set_mode_continues_returns_0:
  assumes "submode = PHY_INTERFACE_MODE_10GBASER \<or> submode = PHY_INTERFACE_MODE_25GBASER"
  shows "fst (ds250dfx10_phy_set_mode c d PHY_MODE_ETHERNET submode) = 0
       \<and> masked_writes_on_bus
            [(0xFF, 0x01, 0x03), (0xFC, chan_select (channel d), 0xFF), (0x00, 0x04, 0x04),
             (0x0A, 0x0C, 0x0C),
             (0x2F, if submode = PHY_INTERFACE_MODE_10GBASER then 0x00 else 0x50, 0xF0),
             (0x3D, 0x80, 0x80), (0x3D, 0x00, 0x40), (0x3D, 0x0F, 0x1F), (0x3E, 0x40, 0x40),
             (0x3E, 0x04, 0x0F), (0x3F, 0x40, 0x40), (0x3F, 0x04, 0x0F), (0x0A, 0x00, 0x0C)]
            (new_xfers c (snd (ds250dfx10_phy_set_mode c d PHY_MODE_ETHERNET submode)))
       \<and> new_dmesg c (snd (ds250dfx10_phy_set_mode c d PHY_MODE_ETHERNET submode)) =
            concat (map xfer_error
              (new_xfers c (snd (ds250dfx10_phy_set_mode c d PHY_MODE_ETHERNET submode))))
            @ (if list_ex xfer_failed
                    (new_xfers c (snd (ds250dfx10_phy_set_mode c d PHY_MODE_ETHERNET submode)))
               then []
               else [if submode = PHY_INTERFACE_MODE_10GBASER
                     then Info_configured_10g (channel d)
                     else Info_configured_25g (channel d)])"
  using assms
proof
  assume s: "submode = PHY_INTERFACE_MODE_10GBASER"
  from set_mode_configures(1) [of c d] obtain u where
    e: "ds250dfx10_phy_set_mode c d PHY_MODE_ETHERNET PHY_INTERFACE_MODE_10GBASER =
         (0, after c u (concat (map xfer_error u)
            @ (if list_ex xfer_failed u then [] else [Info_configured_10g (channel d)])) [])"
    and b: "masked_writes_on_bus
        [(0xFF, 0x01, 0x03), (0xFC, chan_select (channel d), 0xFF), (0x00, 0x04, 0x04),
         (0x0A, 0x0C, 0x0C), (0x2F, 0x00, 0xF0), (0x3D, 0x80, 0x80), (0x3D, 0x00, 0x40),
         (0x3D, 0x0F, 0x1F), (0x3E, 0x40, 0x40), (0x3E, 0x04, 0x0F), (0x3F, 0x40, 0x40),
         (0x3F, 0x04, 0x0F), (0x0A, 0x00, 0x0C)] u"
    by blast
  show ?thesis
    unfolding s e using b
    by (simp only: fst_conv snd_conv new_after if_True if_False simp_thms phy_interface.distinct)
next
  assume s: "submode = PHY_INTERFACE_MODE_25GBASER"
  from set_mode_configures(2) [of c d] obtain u where
    e: "ds250dfx10_phy_set_mode c d PHY_MODE_ETHERNET PHY_INTERFACE_MODE_25GBASER =
         (0, after c u (concat (map xfer_error u)
            @ (if list_ex xfer_failed u then [] else [Info_configured_25g (channel d)])) [])"
    and b: "masked_writes_on_bus
        [(0xFF, 0x01, 0x03), (0xFC, chan_select (channel d), 0xFF), (0x00, 0x04, 0x04),
         (0x0A, 0x0C, 0x0C), (0x2F, 0x50, 0xF0), (0x3D, 0x80, 0x80), (0x3D, 0x00, 0x40),
         (0x3D, 0x0F, 0x1F), (0x3E, 0x40, 0x40), (0x3E, 0x04, 0x0F), (0x3F, 0x40, 0x40),
         (0x3F, 0x04, 0x0F), (0x0A, 0x00, 0x0C)] u"
    by blast
  show ?thesis
    unfolding s e using b
    by (simp only: fst_conv snd_conv new_after if_True if_False simp_thms phy_interface.distinct)
qed

text \<open>On a device that rejects only the write to the line-rate register: the write at
  \<open>0x2F\<close> fails, the eight later masked writes are issued, the call returns 0.\<close>

theorem set_mode_continues_returns_0_witness:
  "fst (ds250dfx10_phy_set_mode rate_write_nak \<lparr>channel = 2\<rparr> PHY_MODE_ETHERNET
          PHY_INTERFACE_MODE_25GBASER) = 0
   \<and> masked_writes_on_bus
        [(0xFF, 0x01, 0x03), (0xFC, 0x04, 0xFF), (0x00, 0x04, 0x04), (0x0A, 0x0C, 0x0C),
         (0x2F, 0x50, 0xF0), (0x3D, 0x80, 0x80), (0x3D, 0x00, 0x40), (0x3D, 0x0F, 0x1F),
         (0x3E, 0x40, 0x40), (0x3E, 0x04, 0x0F), (0x3F, 0x40, 0x40), (0x3F, 0x04, 0x0F),
         (0x0A, 0x00, 0x0C)]
        [Read_byte 0xFF 0xA5, Write_byte 0xFF 0xA5 0,
         Write_byte 0xFC 0x04 0,
         Read_byte 0x00 0xA5, Write_byte 0x00 0xA5 0,
         Read_byte 0x0A 0xA5, Write_byte 0x0A 0xAD 0,
         Read_byte 0x2F 0xA5, Write_byte 0x2F 0x55 (- 6),
         Read_byte 0x3D 0xA5, Write_byte 0x3D 0xA5 0,
         Read_byte 0x3D 0xA5, Write_byte 0x3D 0xA5 0,
         Read_byte 0x3D 0xA5, Write_byte 0x3D 0xAF 0,
         Read_byte 0x3E 0xA5, Write_byte 0x3E 0xE5 0,
         Read_byte 0x3E 0xA5, Write_byte 0x3E 0xA4 0,
         Read_byte 0x3F 0xA5, Write_byte 0x3F 0xE5 0,
         Read_byte 0x3F 0xA5, Write_byte 0x3F 0xA4 0,
         Read_byte 0x0A 0xA5, Write_byte 0x0A 0xA1 0]
   \<and> new_dmesg rate_write_nak
        (snd (ds250dfx10_phy_set_mode rate_write_nak \<lparr>channel = 2\<rparr> PHY_MODE_ETHERNET
          PHY_INTERFACE_MODE_25GBASER)) = [Err_write_failed 0x2F 0x55 (- 6)]"
  using set_mode_continues_returns_0 [of PHY_INTERFACE_MODE_25GBASER rate_write_nak "\<lparr>channel = 2\<rparr>"]
  by (simp add: set_mode_25g_rate_write_nak chan_select_def ENXIO_def word_sless_alt
      masked_writes_on_bus.simps)

text \<open>The claim as stated fails there: a write of the sequence failed and the caller is
  told 0.\<close>

theorem set_mode_returns_0_after_failed_write:
  "fst (ds250dfx10_phy_set_mode rate_write_nak \<lparr>channel = 2\<rparr> PHY_MODE_ETHERNET
          PHY_INTERFACE_MODE_25GBASER) = 0
   \<and> Write_byte 0x2F 0x55 (- ENXIO)
        \<in> set (new_xfers rate_write_nak
             (snd (ds250dfx10_phy_set_mode rate_write_nak \<lparr>channel = 2\<rparr> PHY_MODE_ETHERNET
                PHY_INTERFACE_MODE_25GBASER)))
   \<and> xfer_failed (Write_byte 0x2F 0x55 (- ENXIO))"
  by (simp add: set_mode_25g_rate_write_nak ENXIO_def word_sless_alt)

subsection \<open>C3: the two rates\<close>

text \<open>Claim C3. For every channel, what the 10G configuration and the 25G configuration
  put on the bus is the same sequence of masked writes, the four before and the eight
  after the line-rate write being identical in address, value and mask; only the write at
  \<open>0x2F\<close> differs, with high nibble \<open>0x0\<close> for 10G and \<open>0x5\<close> for 25G.\<close>

theorem rates_differ_in_rate_write_only:
  "let pre = [(0xFF, 0x01, 0x03), (0xFC, chan_select chan, 0xFF), (0x00, 0x04, 0x04),
              (0x0A, 0x0C, 0x0C)];
       post = [(0x3D, 0x80, 0x80), (0x3D, 0x00, 0x40), (0x3D, 0x0F, 0x1F), (0x3E, 0x40, 0x40),
               (0x3E, 0x04, 0x0F), (0x3F, 0x40, 0x40), (0x3F, 0x04, 0x0F), (0x0A, 0x00, 0x0C)]
   in masked_writes_on_bus (pre @ (0x2F, 0x00, 0xF0) # post)
        (new_xfers c (ds250dfx10_config_10g c chan))
    \<and> masked_writes_on_bus (pre @ (0x2F, 0x50, 0xF0) # post)
        (new_xfers c' (ds250dfx10_config_25g c' chan))"
proof -
  obtain u where "ds250dfx10_config_10g c chan =
         after c u (concat (map xfer_error u)
            @ (if list_ex xfer_failed u then [] else [Info_configured_10g chan])) []"
    and "masked_writes_on_bus
        [(0xFF, 0x01, 0x03), (0xFC, chan_select chan, 0xFF), (0x00, 0x04, 0x04),
         (0x0A, 0x0C, 0x0C), (0x2F, 0x00, 0xF0), (0x3D, 0x80, 0x80), (0x3D, 0x00, 0x40),
         (0x3D, 0x0F, 0x1F), (0x3E, 0x40, 0x40), (0x3E, 0x04, 0x0F), (0x3F, 0x40, 0x40),
         (0x3F, 0x04, 0x0F), (0x0A, 0x00, 0x0C)] u"
    using config_10g_bus by blast
  then have a: "masked_writes_on_bus
        [(0xFF, 0x01, 0x03), (0xFC, chan_select chan, 0xFF), (0x00, 0x04, 0x04),
         (0x0A, 0x0C, 0x0C), (0x2F, 0x00, 0xF0), (0x3D, 0x80, 0x80), (0x3D, 0x00, 0x40),
         (0x3D, 0x0F, 0x1F), (0x3E, 0x40, 0x40), (0x3E, 0x04, 0x0F), (0x3F, 0x40, 0x40),
         (0x3F, 0x04, 0x0F), (0x0A, 0x00, 0x0C)] (new_xfers c (ds250dfx10_config_10g c chan))"
    by (simp only: new_after)
  obtain u' where "ds250dfx10_config_25g c' chan =
         after c' u' (concat (map xfer_error u')
            @ (if list_ex xfer_failed u' then [] else [Info_configured_25g chan])) []"
    and "masked_writes_on_bus
        [(0xFF, 0x01, 0x03), (0xFC, chan_select chan, 0xFF), (0x00, 0x04, 0x04),
         (0x0A, 0x0C, 0x0C), (0x2F, 0x50, 0xF0), (0x3D, 0x80, 0x80), (0x3D, 0x00, 0x40),
         (0x3D, 0x0F, 0x1F), (0x3E, 0x40, 0x40), (0x3E, 0x04, 0x0F), (0x3F, 0x40, 0x40),
         (0x3F, 0x04, 0x0F), (0x0A, 0x00, 0x0C)] u'"
    using config_25g_bus by blast
  then have b: "masked_writes_on_bus
        [(0xFF, 0x01, 0x03), (0xFC, chan_select chan, 0xFF), (0x00, 0x04, 0x04),
         (0x0A, 0x0C, 0x0C), (0x2F, 0x50, 0xF0), (0x3D, 0x80, 0x80), (0x3D, 0x00, 0x40),
         (0x3D, 0x0F, 0x1F), (0x3E, 0x40, 0x40), (0x3E, 0x04, 0x0F), (0x3F, 0x40, 0x40),
         (0x3F, 0x04, 0x0F), (0x0A, 0x00, 0x0C)] (new_xfers c' (ds250dfx10_config_25g c' chan))"
    by (simp only: new_after)
  show ?thesis
    unfolding Let_def append.simps using a b by (rule conjI)
qed

subsection \<open>C4: the transfers of a masked write\<close>

text \<open>Claim C4, amended. With the mask \<open>0xFF\<close>, \<^verbatim>\<open>ds250dfx10_write_register\<close> issues exactly
  one write of the value and no read. With any other mask it issues exactly one read; when
  that read succeeds, exactly one write follows, of the value
  \<open>(v & mask) | preserved_bits\<close>, where \<open>preserved_bits\<close> is the read result masked with
  \<open>~mask\<close>; when the read fails, nothing follows.\<close>

theorem write_register_transfers:
  "new_xfers c (snd (ds250dfx10_write_register c a v m)) =
     (if m = 0xFF then [Write_byte a v (adapter_write c (xfers c) a v)]
      else let raw = adapter_read c (xfers c) a in
           if raw <s 0 then [Read_byte a raw]
           else let preserved_bits = ucast raw AND NOT m;
                    val = (v AND m) OR preserved_bits
                in [Read_byte a raw,
                    Write_byte a val (adapter_write c (xfers c @ [Read_byte a raw]) a val)])"
  by (rule write_register_xfers)

text \<open>The claim as stated fails when the read fails: on a device that does not answer,
  the masked write is one read and no write.\<close>

theorem write_register_read_nak_no_write:
  "new_xfers absent_device (snd (ds250dfx10_write_register absent_device 0x0A 0x0C 0x0C)) =
     [Read_byte 0x0A (- ENXIO)]"
  by (simp add: write_register_xfers absent_device_def static_client_def ENXIO_def
      word_sless_alt)

subsection \<open>C5: the channel count\<close>

text \<open>Claim C5. When the probe reads the channel-configuration register \<open>0xEF\<close> and the
  read succeeds: with the low nibble \<open>0xC\<close> the channel count is 8, with \<open>0xE\<close> it is 4 (the
  count is logged, and when no later transfer and no managed-resource call fails the probe
  returns 0 with exactly that many lanes, in the slots \<open>0\<close> up to the count); with any other
  nibble the probe returns \<^verbatim>\<open>-EINVAL\<close>, every slot is \<^verbatim>\<open>NULL\<close>, and the only managed-resource
  call made is the allocation of the private data.\<close>

theorem chan_config_id_channel_count:
  assumes "ds250dfx10_probe c = (ret, priv, c')"
    and "Read_byte 0xEF raw \<in> set (new_xfers c c')" and "\<not> raw <s 0"
  shows "if ucast raw AND 0x0F = (0xC :: u8) then
           Info_channels 8 \<in> set (new_dmesg c c')
           \<and> (\<not> list_ex xfer_failed (new_xfers c c') \<and> \<not> list_ex devm_failed (new_devm_calls c c')
                \<longrightarrow> ret = 0 \<and> priv = Some \<lparr>phy = map lane [0..<8], provider = Ptr ()\<rparr>)
         else if ucast raw AND 0x0F = (0xE :: u8) then
           Info_channels 4 \<in> set (new_dmesg c c')
           \<and> (\<not> list_ex xfer_failed (new_xfers c c') \<and> \<not> list_ex devm_failed (new_devm_calls c c')
                \<longrightarrow> ret = 0
                  \<and> priv = Some \<lparr>phy = map lane [0..<4] @ replicate 4 NULL, provider = Ptr ()\<rparr>)
         else ret = - EINVAL \<and> priv = Some \<lparr>phy = replicate 8 NULL, provider = NULL\<rparr>
            \<and> new_devm_calls c c' = [Kzalloc True]"
  using assms(1)
proof (cases rule: probe_cases)
  case nomem
  with assms(2) show ?thesis by simp
next
  case (id_read r1 l)
  with assms(2) show ?thesis by simp
next
  case (ver_read r1 r2 l)
  with assms(2) show ?thesis by simp
next
  case (cfg_read r1 r2 r3 l)
  with assms(2,3) show ?thesis by auto
next
  case (cfg_unknown r1 r2 r3 l)
  with assms(2) have "raw = r3" by simp
  with cfg_unknown show ?thesis by (simp add: priv0_def)
next
  case (chanver_read r1 r2 r3 r4 n l)
  with assms(2) have "raw = r3" by simp
  with chanver_read show ?thesis by auto
next
  case (created r1 r2 r3 r4 n p l d tl)
  with assms(2) have raw: "raw = r3" by simp
  have n8: "n \<le> 8" using created(4) by auto
  have log: "Info_channels (of_nat n) \<in> set (new_dmesg c c')" using created(7,8) by simp
  have ok: "ret = 0 \<and> priv = Some \<lparr>phy = map lane [0..<n] @ replicate (8 - n) NULL, provider = Ptr ()\<rparr>"
    if nf: "\<not> list_ex devm_failed (new_devm_calls c c')"
  proof -
    from nf created(7) have d: "\<not> list_ex devm_failed d" and t: "\<not> list_ex devm_failed tl"
      by simp_all
    from created(11) d obtain err where r0: "ret = 0" and lanes: "\<forall>j < n. phy p ! j = lane j"
      and tl: "tl = [Provider_register err]"
      and pr: "provider p = (case err of None \<Rightarrow> Ptr () | Some e \<Rightarrow> ERR_PTR e)"
      by (auto split: if_splits)
    from t tl have "err = None" by simp
    with pr have pr': "provider p = Ptr ()" by simp
    have "phy p = map lane [0..<n] @ replicate (8 - n) NULL"
      using created(9) n8 lanes created(10) by (rule slots_eq)
    with pr' have "p = \<lparr>phy = map lane [0..<n] @ replicate (8 - n) NULL, provider = Ptr ()\<rparr>"
      by (cases p) simp
    with r0 created(6) show ?thesis by simp
  qed
  from created(4) show ?thesis
  proof
    assume "ucast r3 AND 0x0F = (0xC :: u8) \<and> n = 8"
    with raw log ok show ?thesis by simp
  next
    assume "ucast r3 AND 0x0F = (0xE :: u8) \<and> n = 4"
    with raw log ok show ?thesis by simp
  qed
qed

text \<open>On the eight-channel device (the register reads \<open>0x3C\<close>, the nibble is \<open>0xC\<close>), on the
  four-channel device (\<open>0x0E\<close>) and on the device with the unknown code \<open>0x03\<close>.\<close>

theorem chan_config_id_channel_count_witness:
  "Read_byte 0xEF 0x3C \<in> set (new_xfers ds250df810 (snd (snd (ds250dfx10_probe ds250df810))))
   \<and> ucast (0x3C :: s32) AND 0x0F = (0xC :: u8)
   \<and> Info_channels 8 \<in> set (new_dmesg ds250df810 (snd (snd (ds250dfx10_probe ds250df810))))
   \<and> fst (ds250dfx10_probe ds250df810) = 0
   \<and> fst (snd (ds250dfx10_probe ds250df810)) =
        Some \<lparr>phy = [lane 0, lane 1, lane 2, lane 3, lane 4, lane 5, lane 6, lane 7],
               provider = Ptr ()\<rparr>
   \<and> Read_byte 0xEF 0x0E \<in> set (new_xfers ds250df410 (snd (snd (ds250dfx10_probe ds250df410))))
   \<and> Info_channels 4 \<in> set (new_dmesg ds250df410 (snd (snd (ds250dfx10_probe ds250df410))))
   \<and> fst (ds250dfx10_probe ds250df410) = 0
   \<and> fst (snd (ds250dfx10_probe ds250df410)) =
        Some \<lparr>phy = [lane 0, lane 1, lane 2, lane 3, NULL, NULL, NULL, NULL], provider = Ptr ()\<rparr>
   \<and> Read_byte 0xEF 0x03
        \<in> set (new_xfers unknown_topology (snd (snd (ds250dfx10_probe unknown_topology))))
   \<and> fst (ds250dfx10_probe unknown_topology) = - EINVAL
   \<and> fst (snd (ds250dfx10_probe unknown_topology)) =
        Some \<lparr>phy = replicate 8 NULL, provider = NULL\<rparr>
   \<and> new_devm_calls unknown_topology (snd (snd (ds250dfx10_probe unknown_topology))) =
        [Kzalloc True]"
  using chan_config_id_channel_count [OF probe_ds250df810, of "0x3C"]
    chan_config_id_channel_count [OF probe_ds250df410, of "0x0E"]
    chan_config_id_channel_count [OF probe_unknown_topology, of "0x03"]
  by (simp add: probe_ds250df810 probe_ds250df410 probe_unknown_topology word_sless_alt upt_8)

subsection \<open>C6: unsupported modes\<close>

text \<open>Claim C6. When the mode is not Ethernet, or the submode is neither 10GBASE-R nor
  25GBASE-R, \<^verbatim>\<open>set_mode\<close> returns \<^verbatim>\<open>-EOPNOTSUPP\<close> and issues no bus transfer; nothing of the
  client changes but the log (the rejected submode is reported there).\<close>

theorem set_mode_unsupported:
  assumes "mode \<noteq> PHY_MODE_ETHERNET
         \<or> (submode \<noteq> PHY_INTERFACE_MODE_10GBASER \<and> submode \<noteq> PHY_INTERFACE_MODE_25GBASER)"
  shows "fst (ds250dfx10_phy_set_mode c d mode submode) = - EOPNOTSUPP
       \<and> new_xfers c (snd (ds250dfx10_phy_set_mode c d mode submode)) = []
       \<and> xfers (snd (ds250dfx10_phy_set_mode c d mode submode)) = xfers c
       \<and> (snd (ds250dfx10_phy_set_mode c d mode submode))\<lparr>dmesg := dmesg c\<rparr> = c"
  using assms
  by (cases submode)
    (auto simp: ds250dfx10_phy_set_mode_def dev_printk_def new_xfers_def)

text \<open>A mode other than Ethernet, and Ethernet with a submode other than the two rates.\<close>

theorem set_mode_unsupported_witness:
  "PHY_MODE_OTHER 0 \<noteq> PHY_MODE_ETHERNET
   \<and> PHY_INTERFACE_MODE_OTHER 7 \<noteq> PHY_INTERFACE_MODE_10GBASER
   \<and> PHY_INTERFACE_MODE_OTHER 7 \<noteq> PHY_INTERFACE_MODE_25GBASER
   \<and> ds250dfx10_phy_set_mode ds250df410 \<lparr>channel = 2\<rparr> (PHY_MODE_OTHER 0)
        PHY_INTERFACE_MODE_10GBASER = (- EOPNOTSUPP, ds250df410)
   \<and> fst (ds250dfx10_phy_set_mode ds250df410 \<lparr>channel = 2\<rparr> PHY_MODE_ETHERNET
        (PHY_INTERFACE_MODE_OTHER 7)) = - EOPNOTSUPP
   \<and> xfers (snd (ds250dfx10_phy_set_mode ds250df410 \<lparr>channel = 2\<rparr> PHY_MODE_ETHERNET
        (PHY_INTERFACE_MODE_OTHER 7))) = []"
  using set_mode_unsupported [of "PHY_MODE_OTHER 0" PHY_INTERFACE_MODE_10GBASER ds250df410
      "\<lparr>channel = 2\<rparr>"]
    set_mode_unsupported [of PHY_MODE_ETHERNET "PHY_INTERFACE_MODE_OTHER 7" ds250df410
      "\<lparr>channel = 2\<rparr>"]
  by (simp add: ds250dfx10_phy_set_mode_def ds250df410_def static_client_def dev_printk_def)

subsection \<open>C7: identification failures\<close>

text \<open>Claim C7. If a transfer of the probe fails (the probe's transfers are the four
  identification reads: device id, version, channel configuration, channel version), or
  the channel-configuration nibble read is neither \<open>0xC\<close> nor \<open>0xE\<close>, then the probe returns a
  negative errno, every PHY slot is \<^verbatim>\<open>NULL\<close>, the provider is \<^verbatim>\<open>NULL\<close>, and no PHY was created
  and no provider registered: the only managed-resource call is the allocation of the
  private data.\<close>

theorem probe_identification_failure:
  assumes "ds250dfx10_probe c = (ret, priv, c')"
    and "list_ex xfer_failed (new_xfers c c')
         \<or> (\<exists>raw. Read_byte 0xEF raw \<in> set (new_xfers c c') \<and> \<not> raw <s 0
                \<and> ucast raw AND 0x0F \<noteq> (0xC :: u8) \<and> ucast raw AND 0x0F \<noteq> (0xE :: u8))"
  shows "ret <s 0 \<and> priv = Some \<lparr>phy = replicate 8 NULL, provider = NULL\<rparr>
       \<and> new_devm_calls c c' = [Kzalloc True]"
  using assms(1)
proof (cases rule: probe_cases)
  case nomem
  with assms(2) show ?thesis by simp
next
  case (id_read r1 l)
  then show ?thesis by (simp add: priv0_def)
next
  case (ver_read r1 r2 l)
  then show ?thesis by (simp add: priv0_def)
next
  case (cfg_read r1 r2 r3 l)
  then show ?thesis by (simp add: priv0_def)
next
  case (cfg_unknown r1 r2 r3 l)
  then show ?thesis by (simp add: priv0_def)
next
  case (chanver_read r1 r2 r3 r4 n l)
  then show ?thesis by (simp add: priv0_def)
next
  case (created r1 r2 r3 r4 n p l d tl)
  from created(1-5,7) assms(2) have False by auto
  then show ?thesis ..
qed

text \<open>On the device that does not answer (the first read fails) and on the device with the
  unknown channel configuration.\<close>

theorem probe_identification_failure_witness:
  "list_ex xfer_failed (new_xfers absent_device (snd (snd (ds250dfx10_probe absent_device))))
   \<and> fst (ds250dfx10_probe absent_device) = - EIO \<and> - EIO <s 0
   \<and> fst (snd (ds250dfx10_probe absent_device)) = Some \<lparr>phy = replicate 8 NULL, provider = NULL\<rparr>
   \<and> new_devm_calls absent_device (snd (snd (ds250dfx10_probe absent_device))) = [Kzalloc True]
   \<and> Read_byte 0xEF 0x03
        \<in> set (new_xfers unknown_topology (snd (snd (ds250dfx10_probe unknown_topology))))
   \<and> fst (ds250dfx10_probe unknown_topology) = - EINVAL \<and> - EINVAL <s 0
   \<and> fst (snd (ds250dfx10_probe unknown_topology)) = Some \<lparr>phy = replicate 8 NULL, provider = NULL\<rparr>
   \<and> new_devm_calls unknown_topology (snd (snd (ds250dfx10_probe unknown_topology))) = [Kzalloc True]"
  using probe_identification_failure [OF probe_absent_device]
    probe_identification_failure [OF probe_unknown_topology]
  by (simp add: probe_absent_device probe_unknown_topology ENXIO_def word_sless_alt)

subsection \<open>C8: lane lookup\<close>

text \<open>Claim C8, amended. After a probe that registered the provider, with \<open>n\<close> the channel
  count it discovered (4 or 8): a lookup request with exactly one cell returns the lane
  created for the index in that cell when the index is below \<open>n\<close>, and \<^verbatim>\<open>-ENODEV\<close> when it
  is not (out of range, or one of the slots never filled); a request with any other number
  of cells returns \<^verbatim>\<open>-ENODEV\<close> whatever its first cell.\<close>

theorem of_xlate_after_probe:
  assumes "ds250dfx10_probe c = (ret, Some p, c')" and "provider p = Ptr ()"
  shows "\<exists>n. (n = 4 \<or> n = 8) \<and> Info_channels (of_nat n) \<in> set (new_dmesg c c') \<and> ret = 0
          \<and> ds250dfx10_of_xlate p a =
               (if args_count a = 1 \<and> unat (args a 0) < n then lane (unat (args a 0))
                else ERR_PTR (- ENODEV))"
  using assms(1)
proof (cases rule: probe_cases)
  case nomem
  then show ?thesis by simp
next
  case (id_read r1 l)
  with assms(2) show ?thesis by (simp add: priv0_def)
next
  case (ver_read r1 r2 l)
  with assms(2) show ?thesis by (simp add: priv0_def)
next
  case (cfg_read r1 r2 r3 l)
  with assms(2) show ?thesis by (simp add: priv0_def)
next
  case (cfg_unknown r1 r2 r3 l)
  with assms(2) show ?thesis by (simp add: priv0_def)
next
  case (chanver_read r1 r2 r3 r4 n l)
  with assms(2) show ?thesis by (simp add: priv0_def)
next
  case (created r1 r2 r3 r4 n q l d tl)
  have pq: "q = p" using created(6) by simp
  have n: "n = 4 \<or> n = 8" using created(4) by auto
  then have n8: "n \<le> 8" by auto
  have ok: "\<not> list_ex devm_failed d"
    using created(11) assms(2) pq by (auto split: if_splits)
  with created(11) have r0: "ret = 0" and lanes: "\<forall>j < n. phy p ! j = lane j"
    unfolding pq by (simp_all split: if_splits)
  have rest: "\<forall>j < 8. \<not> j < n \<longrightarrow> phy p ! j = NULL"
    using created(10) unfolding pq by (auto split: if_splits)
  have len: "length (phy p) = 8" using created(9) pq by simp
  have log: "Info_channels (of_nat n) \<in> set (new_dmesg c c')"
    using created(7,8) by simp
  from of_xlate_slots [OF len n8 lanes rest, of a] n log r0 show ?thesis by blast
qed

text \<open>On the four-channel device: index 2 gives lane 2; index 5 (never created) and index
  8 (out of range) give \<^verbatim>\<open>-ENODEV\<close>.\<close>

theorem of_xlate_after_probe_witness:
  "ds250dfx10_probe ds250df410 =
     (0, Some \<lparr>phy = [lane 0, lane 1, lane 2, lane 3, NULL, NULL, NULL, NULL], provider = Ptr ()\<rparr>,
      after ds250df410
        [Read_byte 0xF1 0x10, Read_byte 0xF0 0x02, Read_byte 0xEF 0x0E, Read_byte 0xF3 0xA5]
        [Info_device_id 0x10 0x02, Info_channels 4, Info_chan_version 0xA 0x5,
         Info_created_phy 0, Info_created_phy 1, Info_created_phy 2, Info_created_phy 3]
        [Kzalloc True, Phy_create None, Kzalloc True, Phy_create None, Kzalloc True,
         Phy_create None, Kzalloc True, Phy_create None, Kzalloc True, Provider_register None])
   \<and> ds250dfx10_of_xlate
        \<lparr>phy = [lane 0, lane 1, lane 2, lane 3, NULL, NULL, NULL, NULL], provider = Ptr ()\<rparr>
        (one_cell 2) = Ptr \<lparr>drvdata = Some \<lparr>channel = 2\<rparr>\<rparr>
   \<and> ds250dfx10_of_xlate
        \<lparr>phy = [lane 0, lane 1, lane 2, lane 3, NULL, NULL, NULL, NULL], provider = Ptr ()\<rparr>
        (one_cell 5) = ERR_PTR (- ENODEV)
   \<and> ds250dfx10_of_xlate
        \<lparr>phy = [lane 0, lane 1, lane 2, lane 3, NULL, NULL, NULL, NULL], provider = Ptr ()\<rparr>
        (one_cell 8) = ERR_PTR (- ENODEV)"
  using of_xlate_after_probe [OF probe_ds250df410, of "one_cell 2"]
    of_xlate_after_probe [OF probe_ds250df410, of "one_cell 5"]
    of_xlate_after_probe [OF probe_ds250df410, of "one_cell 8"]
  by (auto simp: probe_ds250df410 one_cell_def lane_def)

text \<open>The claim as stated fails for a request with two cells: index 0 is in range and its
  lane was created, and the lookup returns \<^verbatim>\<open>-ENODEV\<close>.\<close>

theorem of_xlate_two_cells_not_found:
  "fst (snd (ds250dfx10_probe ds250df410)) =
     Some \<lparr>phy = [lane 0, lane 1, lane 2, lane 3, NULL, NULL, NULL, NULL], provider = Ptr ()\<rparr>
   \<and> args two_cells 0 = 0
   \<and> ds250dfx10_of_xlate
        \<lparr>phy = [lane 0, lane 1, lane 2, lane 3, NULL, NULL, NULL, NULL], provider = Ptr ()\<rparr>
        two_cells = ERR_PTR (- ENODEV)
   \<and> ds250dfx10_of_xlate
        \<lparr>phy = [lane 0, lane 1, lane 2, lane 3, NULL, NULL, NULL, NULL], provider = Ptr ()\<rparr>
        (one_cell 0) = lane 0"
  by (simp add: probe_ds250df410 two_cells_def one_cell_def ds250dfx10_of_xlate_def xlate_range)

subsection \<open>C9: a failed preserving read\<close>

text \<open>Claim C9. With a mask other than \<open>0xFF\<close>, when the read behind the masked write fails,
  \<^verbatim>\<open>ds250dfx10_write_register\<close> returns \<^verbatim>\<open>-EIO\<close> at once: the read is the only transfer, no
  write is issued, and nothing else changes but the log line of the failed read.\<close>

theorem write_register_failed_read:
  assumes "m \<noteq> 0xFF" and "adapter_read c (xfers c) a <s 0"
  shows "ds250dfx10_write_register c a v m =
     (- EIO, after c [Read_byte a (adapter_read c (xfers c) a)]
               [Err_read_failed a (adapter_read c (xfers c) a)] [])"
proof -
  have "ds250dfx10_write_register (after c [] [] []) a v m =
     (- EIO, after c [Read_byte a (adapter_read c (xfers c) a)]
               [Err_read_failed a (adapter_read c (xfers c) a)] [])"
    using assms by (simp add: write_register_after Let_def)
  then show ?thesis by (simp only: after_Nil)
qed

text \<open>On the device that does not answer.\<close>

theorem write_register_failed_read_witness:
  "(0x0C :: u8) \<noteq> 0xFF \<and> adapter_read absent_device (xfers absent_device) 0x0A <s 0
   \<and> ds250dfx10_write_register absent_device 0x0A 0x0C 0x0C =
       (- EIO, absent_device\<lparr>xfers := [Read_byte 0x0A (- ENXIO)],
                 dmesg := [Err_read_failed 0x0A (- ENXIO)]\<rparr>)"
  using write_register_failed_read [of "0x0C" absent_device "0x0A" "0x0C"]
  by (simp add: absent_device_def static_client_def ENXIO_def word_sless_alt after_def)

subsection \<open>C10: the channel index of a lane\<close>

text \<open>Claim C10. Every PHY that the probe left in a slot with driver data carries the index
  of its slot, which is below the discovered channel count (4 or 8). The index is a field
  of a value that no function of the driver returns changed: a lookup gives back the same
  handle. Hence the channel-select byte \<open>1 << index\<close> is one-hot, its single bit at the
  position of the index, below 8, and that byte is what both configuration functions write
  to \<open>0xFC\<close>.\<close>

theorem lane_index_below_channel_count:
  assumes "ds250dfx10_probe c = (ret, Some p, c')" and "j < 8"
    and "phy p ! j = Ptr h" and "drvdata h = Some d"
  shows "\<exists>n. (n = 4 \<or> n = 8) \<and> Info_channels (of_nat n) \<in> set (new_dmesg c c')
          \<and> unat (channel d) = j \<and> j < n
          \<and> chan_select (channel d) = 2 ^ j
          \<and> (\<forall>k. bit (chan_select (channel d)) k = (k = j))
          \<and> (\<exists>r. Write_byte 0xFC (2 ^ j) r
                 \<in> set (new_xfers c10 (ds250dfx10_config_10g c10 (channel d))))
          \<and> (\<exists>r. Write_byte 0xFC (2 ^ j) r
                 \<in> set (new_xfers c25 (ds250dfx10_config_25g c25 (channel d))))
          \<and> ds250dfx10_of_xlate p (one_cell (of_nat j)) = Ptr h"
  using assms(1)
proof (cases rule: probe_cases)
  case nomem
  then show ?thesis by simp
next
  case (id_read r1 l)
  with assms(2,3) show ?thesis by (simp add: priv0_def)
next
  case (ver_read r1 r2 l)
  with assms(2,3) show ?thesis by (simp add: priv0_def)
next
  case (cfg_read r1 r2 r3 l)
  with assms(2,3) show ?thesis by (simp add: priv0_def)
next
  case (cfg_unknown r1 r2 r3 l)
  with assms(2,3) show ?thesis by (simp add: priv0_def)
next
  case (chanver_read r1 r2 r3 r4 n l)
  with assms(2,3) show ?thesis by (simp add: priv0_def)
next
  case (created r1 r2 r3 r4 n q l d' tl)
  have pq: "q = p" using created(6) by simp
  have n: "n = 4 \<or> n = 8" using created(4) by auto
  have log: "Info_channels (of_nat n) \<in> set (new_dmesg c c')" using created(7,8) by simp
  from created(10) assms(2) have slot:
    "if j < n then phy p ! j = lane j \<or> phy p ! j = Ptr \<lparr>drvdata = None\<rparr> \<or> phy p ! j = NULL
     else phy p ! j = NULL"
    unfolding pq by simp
  with assms(3,4) have jn: "j < n" and "h = \<lparr>drvdata = Some \<lparr>channel = of_nat j\<rparr>\<rparr>"
    by (auto simp: lane_def split: if_splits)
  with assms(4) have d: "channel d = of_nat j" by auto
  have u: "unat (channel d) = j" unfolding d using assms(2) by (rule unat_of_nat_u8)
  have sel: "chan_select (channel d) = 2 ^ j" "\<And>k. bit (chan_select (channel d)) k = (k = j)"
    unfolding d using chan_select_one_hot [OF assms(2)] by simp_all
  obtain u10 where "ds250dfx10_config_10g c10 (channel d) =
         after c10 u10 (concat (map xfer_error u10)
            @ (if list_ex xfer_failed u10 then [] else [Info_configured_10g (channel d)])) []"
    and "masked_writes_on_bus
        [(0xFF, 0x01, 0x03), (0xFC, chan_select (channel d), 0xFF), (0x00, 0x04, 0x04),
         (0x0A, 0x0C, 0x0C), (0x2F, 0x00, 0xF0), (0x3D, 0x80, 0x80), (0x3D, 0x00, 0x40),
         (0x3D, 0x0F, 0x1F), (0x3E, 0x40, 0x40), (0x3E, 0x04, 0x0F), (0x3F, 0x40, 0x40),
         (0x3F, 0x04, 0x0F), (0x0A, 0x00, 0x0C)] u10"
    using config_10g_bus by blast
  then have w10: "\<exists>r. Write_byte 0xFC (2 ^ j) r
      \<in> set (new_xfers c10 (ds250dfx10_config_10g c10 (channel d)))"
    using select_on_bus [of _ "0xFC" "chan_select (channel d)" _ u10]
    by (simp only: new_after sel(1))
  obtain u25 where "ds250dfx10_config_25g c25 (channel d) =
         after c25 u25 (concat (map xfer_error u25)
            @ (if list_ex xfer_failed u25 then [] else [Info_configured_25g (channel d)])) []"
    and "masked_writes_on_bus
        [(0xFF, 0x01, 0x03), (0xFC, chan_select (channel d), 0xFF), (0x00, 0x04, 0x04),
         (0x0A, 0x0C, 0x0C), (0x2F, 0x50, 0xF0), (0x3D, 0x80, 0x80), (0x3D, 0x00, 0x40),
         (0x3D, 0x0F, 0x1F), (0x3E, 0x40, 0x40), (0x3E, 0x04, 0x0F), (0x3F, 0x40, 0x40),
         (0x3F, 0x04, 0x0F), (0x0A, 0x00, 0x0C)] u25"
    using config_25g_bus by blast
  then have w25: "\<exists>r. Write_byte 0xFC (2 ^ j) r
      \<in> set (new_xfers c25 (ds250dfx10_config_25g c25 (channel d)))"
    using select_on_bus [of _ "0xFC" "chan_select (channel d)" _ u25]
    by (simp only: new_after sel(1))
  have "unat (of_nat j :: 32 word) = j" using assms(2) by (simp add: unat_of_nat)
  then have x: "ds250dfx10_of_xlate p (one_cell (of_nat j)) = Ptr h"
    using assms(2,3) by (simp add: ds250dfx10_of_xlate_def one_cell_def xlate_range)
  from n log u jn sel w10 w25 x show ?thesis by blast
qed

text \<open>The spec's end-to-end scenario: the four-channel device, lane 2, channel-select byte
  \<open>0x04\<close>.\<close>

theorem lane_index_below_channel_count_witness:
  "fst (snd (ds250dfx10_probe ds250df410)) =
     Some \<lparr>phy = [lane 0, lane 1, lane 2, lane 3, NULL, NULL, NULL, NULL], provider = Ptr ()\<rparr>
   \<and> [lane 0, lane 1, lane 2, lane 3, NULL, NULL, NULL, NULL] ! 2 =
       Ptr \<lparr>drvdata = Some \<lparr>channel = 2\<rparr>\<rparr>
   \<and> Info_channels 4 \<in> set (new_dmesg ds250df410 (snd (snd (ds250dfx10_probe ds250df410))))
   \<and> unat (channel \<lparr>channel = 2\<rparr>) = 2
   \<and> chan_select (channel \<lparr>channel = 2\<rparr>) = 4
   \<and> (\<exists>r. Write_byte 0xFC 4 r
          \<in> set (new_xfers rate_write_nak (ds250dfx10_config_25g rate_write_nak 2)))"
  using lane_index_below_channel_count [OF probe_ds250df410,
      of 2 "\<lparr>drvdata = Some \<lparr>channel = 2\<rparr>\<rparr>" "\<lparr>channel = 2\<rparr>" rate_write_nak rate_write_nak]
  by (auto simp: probe_ds250df410 lane_def)

end
